theory Spec2Isabelle
  imports
    Complex_Main
    "HOL-Library.Char_ord"
    "HOL-Library.List_Lexorder"
    "HOL-Library.Log_Nat"
    "HOL-Library.Product_Lexorder"
begin

section \<open>The resistance bubble-map pipeline of TheiaProk-amr-visualizer.py\<close>

text \<open>
  The script is one linear pipeline over a table: clean, group, join, derive a
  percentage, resolve ISO codes, geocode, add jittered coordinates, keep seven
  resistance types, build one marker series per type. Each statement of the script is
  one definition below, in the order of the script.

  Modelling decisions.
  \<^item> A table is the list of its rows, in row order. Only the two columns the script
    reads are kept. A cell that pandas holds as NaN is \<open>None\<close>.
  \<^item> Python strings are \<open>string\<close>; their order is the one of \<open>Char_ord\<close> and
    \<open>List_Lexorder\<close> (lexicographic, by character code), the order pandas sorts
    group keys by.
  \<^item> A float is a \<open>real\<close>. A float literal is the real it is written as and stands
    for the binary64 number nearest to it. The addition of line 69
    (\<^verbatim>\<open>coords["lon"] + jitter\<close>) is the binary64 addition \<open>fadd\<close>: it rounds both
    operands and their exact sum to 53 significant bits, to nearest with ties to even,
    with gradual underflow. A sum of magnitude \<open>2 ^ 1024\<close> or more, which binary64
    rounds to infinity, is outside the model. The division and the multiplications of
    the percentage (line 25) and of the sizing reference (line 114) are exact: their
    rounding is not modelled. NaN, which only \<open>max\<close> of an empty column produces, is
    \<open>None\<close>.
  \<^item> Line 71 (\<^verbatim>\<open>counts[["lat", "lon"]] = counts.apply(apply_coords, axis=1)\<close>) raises
    \<open>ValueError\<close> when the aggregate has no row, because \<open>apply\<close> then returns the
    empty table with its six columns: the stages from there on return an error or a
    value. The other fatal errors of the script (a missing file or column) cannot
    occur on a table that has both columns, the input of this model.
  \<^item> \<open>pycountry.countries.lookup\<close> and \<open>Nominatim.geocode\<close> are libraries outside the
    script: they are parameters, functions from the name to an outcome that is either
    a raised exception or a returned value.
  \<^item> The effects of the geocoding loop (external lookups, sleeps) are recorded in an
    event log carried in the loop state.
\<close>

subsection \<open>Loader: \<open>read_csv\<close> result and \<open>dropna\<close>\<close>

record sample_row =
  Country_of_sample_collection :: "string option"
  tbprofiler_dr_type :: "string option"

text \<open>
  \<^verbatim>\<open>df = df.dropna(subset=["tbprofiler_dr_type", "Country_of_sample_collection"])\<close>
  A kept row has both cells; it is the pair (country, resistance type).
\<close>

definition dropna :: "sample_row list \<Rightarrow> (string \<times> string) list" where
  "dropna df =
     List.map_filter
       (\<lambda>r. case (tbprofiler_dr_type r, Country_of_sample_collection r) of
               (Some t, Some c) \<Rightarrow> Some (c, t)
             | _ \<Rightarrow> None) df"

subsection \<open>Aggregator\<close>

text \<open>
  \<^verbatim>\<open>df.groupby(keys).size().reset_index(name=...)\<close>: one row per key that occurs,
  keys in sorted order, with the number of rows of the group.
\<close>

definition groupby_size :: "('r \<Rightarrow> 'k::linorder) \<Rightarrow> 'r list \<Rightarrow> ('k \<times> nat) list" where
  "groupby_size key df =
     map (\<lambda>k. (k, length (filter (\<lambda>r. key r = k) df))) (sort (remdups (map key df)))"

definition total_per_country :: "(string \<times> string) list \<Rightarrow> (string \<times> nat) list" where
  "total_per_country df = groupby_size fst df"

definition counts_size :: "(string \<times> string) list \<Rightarrow> ((string \<times> string) \<times> nat) list" where
  "counts_size df = groupby_size (\<lambda>r. (fst r, snd r)) df"

record merged_row =
  country :: string
  dr_type :: string
  count :: nat
  total_samples :: nat

text \<open>
  \<^verbatim>\<open>counts.merge(total_per_country, on="Country_of_sample_collection")\<close>: the inner
  join, in the order of the left table, one row per matching pair.
\<close>

definition merge_on_country ::
  "((string \<times> string) \<times> nat) list \<Rightarrow> (string \<times> nat) list \<Rightarrow> merged_row list" where
  "merge_on_country cs ts =
     concat (map (\<lambda>((c, t), n).
       map (\<lambda>(c', tot). \<lparr>country = c, dr_type = t, count = n, total_samples = tot\<rparr>)
         (filter (\<lambda>(c', tot). c' = c) ts)) cs)"

definition counts_merged :: "(string \<times> string) list \<Rightarrow> merged_row list" where
  "counts_merged df = merge_on_country (counts_size df) (total_per_country df)"

record pct_row = merged_row +
  percent :: real

text \<open>\<^verbatim>\<open>counts["percent"] = (counts["count"] / counts["total_samples"]) * 100\<close>\<close>

definition add_percent :: "merged_row \<Rightarrow> pct_row" where
  "add_percent r =
     \<lparr>country = country r, dr_type = dr_type r, count = count r,
      total_samples = total_samples r,
      percent = (real (count r) / real (total_samples r)) * 100\<rparr>"

definition counts_percent :: "(string \<times> string) list \<Rightarrow> pct_row list" where
  "counts_percent df = map add_percent (counts_merged df)"

subsection \<open>Country-code resolver\<close>

text \<open>The outcome of a call into an external library: an exception or a value.\<close>

datatype 'a outcome = Raises | Returns 'a

text \<open>
  \<^verbatim>\<open>
  def get_iso3(name):
      try:
          return pycountry.countries.lookup(name).alpha_3
      except:
          return None
  \<close>
  The parameter \<open>lookup\<close> is \<open>pycountry.countries.lookup(name).alpha_3\<close>.
\<close>

definition get_iso3 :: "(string \<Rightarrow> string outcome) \<Rightarrow> string \<Rightarrow> string option" where
  "get_iso3 lookup name = (case lookup name of Raises \<Rightarrow> None | Returns a \<Rightarrow> Some a)"

record iso_row = pct_row +
  iso_alpha :: string

text \<open>
  \<^verbatim>\<open>
  counts["iso_alpha"] = counts["Country_of_sample_collection"].apply(get_iso3)
  counts = counts.dropna(subset=["iso_alpha"])
  \<close>
\<close>

definition assign_iso ::
  "(string \<Rightarrow> string outcome) \<Rightarrow> pct_row list \<Rightarrow> (pct_row \<times> string option) list" where
  "assign_iso lookup cs = map (\<lambda>r. (r, get_iso3 lookup (country r))) cs"

definition dropna_iso :: "(pct_row \<times> string option) list \<Rightarrow> iso_row list" where
  "dropna_iso cs =
     List.map_filter
       (\<lambda>(r, iso). case iso of
            None \<Rightarrow> None
          | Some a \<Rightarrow>
              Some \<lparr>country = country r, dr_type = dr_type r, count = count r,
                    total_samples = total_samples r, percent = percent r,
                    iso_alpha = a\<rparr>) cs"

definition counts_iso ::
  "(string \<Rightarrow> string outcome) \<Rightarrow> (string \<times> string) list \<Rightarrow> iso_row list" where
  "counts_iso lookup df = dropna_iso (assign_iso lookup (counts_percent df))"

subsection \<open>Jitter map\<close>

definition jitter_map :: "(string \<times> real) list" where
  "jitter_map =
     [(''Sensitive'', 0.0),
      (''RR-TB'', 0.2),
      (''MDR-TB'', 0.4),
      (''Pre-XDR-TB'', 0.6),
      (''HR-TB'', 0.8),
      (''XDR-TB'', 1.0),
      (''Other'', 1.2)]"

text \<open>\<^verbatim>\<open>d.get(k, default)\<close> on a dictionary literal.\<close>

definition dict_get :: "('k \<times> 'v) list \<Rightarrow> 'k \<Rightarrow> 'v \<Rightarrow> 'v" where
  "dict_get d k dflt = (case map_of d k of None \<Rightarrow> dflt | Some v \<Rightarrow> v)"

subsection \<open>Geocoder\<close>

text \<open>\<^verbatim>\<open>Series.unique()\<close>: the distinct values in order of first appearance.\<close>

fun unique :: "'a list \<Rightarrow> 'a list" where
  "unique [] = []"
| "unique (x # xs) = x # unique (filter (\<lambda>y. y \<noteq> x) xs)"

record coord =
  lat :: real
  lon :: real

datatype event = Geocode string | Sleep nat

record geo_state =
  country_coords :: "string \<rightharpoonup> coord"
  events :: "event list"

text \<open>
  One iteration of
  \<^verbatim>\<open>
  for country in counts["Country_of_sample_collection"].unique():
      try:
          if country == "Georgia":
              country_coords[country] = {"lat": 42.3154, "lon": 43.3569}
              continue
          if country == "Sudan":
              country_coords[country] = {"lat": 12.8628, "lon": 30.2176}
              continue
          location = geolocator.geocode(country)
          if location:
              country_coords[country] = {"lat": location.latitude, "lon": location.longitude}
      except:
          pass
      sleep(1)
  \<close>
  The parameter \<open>geocode\<close> is \<open>geolocator.geocode\<close>: it raises, returns \<open>None\<close>, or
  returns a location, of which the script reads latitude and longitude.
\<close>

definition geocode_step ::
  "(string \<Rightarrow> coord option outcome) \<Rightarrow> geo_state \<Rightarrow> string \<Rightarrow> geo_state" where
  "geocode_step geocode st c =
     (if c = ''Georgia'' then
        st\<lparr>country_coords := (country_coords st)(c \<mapsto> \<lparr>lat = 42.3154, lon = 43.3569\<rparr>)\<rparr>
      else if c = ''Sudan'' then
        st\<lparr>country_coords := (country_coords st)(c \<mapsto> \<lparr>lat = 12.8628, lon = 30.2176\<rparr>)\<rparr>
      else
        (let st1 = st\<lparr>events := events st @ [Geocode c]\<rparr>;
             st2 = (case geocode c of
                      Raises \<Rightarrow> st1
                    | Returns None \<Rightarrow> st1
                    | Returns (Some loc) \<Rightarrow>
                        st1\<lparr>country_coords :=
                              (country_coords st1)(c \<mapsto> \<lparr>lat = lat loc, lon = lon loc\<rparr>)\<rparr>)
         in st2\<lparr>events := events st2 @ [Sleep 1]\<rparr>))"

definition geocode_loop ::
  "(string \<Rightarrow> coord option outcome) \<Rightarrow> string list \<Rightarrow> geo_state" where
  "geocode_loop geocode cs =
     foldl (geocode_step geocode) \<lparr>country_coords = Map.empty, events = []\<rparr> cs"

definition geocode_all ::
  "(string \<Rightarrow> coord option outcome) \<Rightarrow> iso_row list \<Rightarrow> geo_state" where
  "geocode_all geocode cs = geocode_loop geocode (unique (map country cs))"

subsection \<open>Binary64 addition\<close>

text \<open>
  \<open>round64 x\<close> is the binary64 number nearest to \<open>x\<close>: with \<open>e\<close> the exponent of
  \<open>x\<close> (\<open>2 ^ e \<le> \<bar>x\<bar> < 2 ^ (e + 1)\<close>), at least \<open>- 1022\<close>, it is the multiple of
  \<open>2 ^ (e - 52)\<close> nearest to \<open>x\<close>, the even multiple at a tie.
\<close>

definition round_half_even :: "real \<Rightarrow> int" where
  "round_half_even y =
     (let f = \<lfloor>y\<rfloor>; d = y - of_int f
      in if d < 1 / 2 then f else if 1 / 2 < d then f + 1 else if even f then f else f + 1)"

definition pow2 :: "int \<Rightarrow> real" where
  "pow2 e = (if 0 \<le> e then 2 ^ nat e else 1 / 2 ^ nat (- e))"

definition exponent :: "real \<Rightarrow> int" where
  "exponent x =
     (if 1 \<le> \<bar>x\<bar> then bitlen \<lfloor>\<bar>x\<bar>\<rfloor> - 1 else - bitlen (\<lceil>1 / \<bar>x\<bar>\<rceil> - 1))"

definition round64 :: "real \<Rightarrow> real" where
  "round64 x =
     (if x = 0 then 0
      else (let u = pow2 (max (exponent x) (- 1022) - 52)
            in of_int (round_half_even (x / u)) * u))"

definition fadd :: "real \<Rightarrow> real \<Rightarrow> real" where
  "fadd x y = round64 (round64 x + round64 y)"

subsection \<open>Layout mapper\<close>

text \<open>
  \<^verbatim>\<open>
  def apply_coords(row):
      coords = country_coords.get(row["Country_of_sample_collection"], {"lat": 0.0, "lon": 30.0})
      jitter = jitter_map.get(row["tbprofiler_dr_type"], 0.0)
      return pd.Series({"lat": coords["lat"], "lon": coords["lon"] + jitter})
  \<close>
\<close>

definition apply_coords :: "(string \<rightharpoonup> coord) \<Rightarrow> iso_row \<Rightarrow> coord" where
  "apply_coords cc row =
     (let coords = (case cc (country row) of
                      None \<Rightarrow> \<lparr>lat = 0.0, lon = 30.0\<rparr>
                    | Some v \<Rightarrow> v);
          jitter = dict_get jitter_map (dr_type row) 0.0
      in \<lparr>lat = lat coords, lon = fadd (lon coords) jitter\<rparr>)"

text \<open>
  \<^verbatim>\<open>counts[["lat", "lon"]] = counts.apply(apply_coords, axis=1)\<close>: the columns
  \<open>lat\<close> and \<open>lon\<close> of the table are the fields \<open>point_lat\<close> and \<open>point_lon\<close>.
  On a table with no row \<open>apply\<close> returns the table itself, six columns for the two
  keys, and the assignment raises \<open>ValueError\<close>.
\<close>

datatype error = ValueError

record plot_row = iso_row +
  point_lat :: real
  point_lon :: real

definition with_coords :: "(string \<rightharpoonup> coord) \<Rightarrow> iso_row \<Rightarrow> plot_row" where
  "with_coords cc r =
     (let p = apply_coords cc r
      in \<lparr>country = country r, dr_type = dr_type r, count = count r,
          total_samples = total_samples r, percent = percent r,
          iso_alpha = iso_alpha r, point_lat = lat p, point_lon = lon p\<rparr>)"

definition counts_coords ::
  "(string \<rightharpoonup> coord) \<Rightarrow> iso_row list \<Rightarrow> error + plot_row list" where
  "counts_coords cc cs = (if cs = [] then Inl ValueError else Inr (map (with_coords cc) cs))"

subsection \<open>Renderer\<close>

definition selected_types :: "string list" where
  "selected_types =
     [''Sensitive'', ''Other'', ''HR-TB'', ''RR-TB'', ''MDR-TB'', ''Pre-XDR-TB'', ''XDR-TB'']"

text \<open>\<^verbatim>\<open>counts = counts[counts["tbprofiler_dr_type"].isin(selected_types)]\<close>\<close>

definition counts_selected :: "plot_row list \<Rightarrow> plot_row list" where
  "counts_selected cs = filter (\<lambda>r. dr_type r \<in> set selected_types) cs"

definition color_map :: "(string \<times> string) list" where
  "color_map =
     [(''Sensitive'', ''#008000''),
      (''Other'', ''#333333''),
      (''HR-TB'', ''#FFD700''),
      (''RR-TB'', ''#FF8C00''),
      (''MDR-TB'', ''#9370DB''),
      (''Pre-XDR-TB'', ''#F08080''),
      (''XDR-TB'', ''#FF0000'')]"

text \<open>
  \<^verbatim>\<open>max_percent = counts["percent"].max()\<close>: the largest value of the column, NaN
  (\<open>None\<close>) for a column with no row.
\<close>

definition column_max :: "real list \<Rightarrow> real option" where
  "column_max ps = (case ps of [] \<Rightarrow> None | p # qs \<Rightarrow> Some (fold max qs p))"

text \<open>
  One \<open>go.Scattergeo\<close> trace. The percentage labels and the hover template are
  formatted text and are left out; \<open>customdata\<close> holds the five columns they read.
  \<open>marker_sizeref\<close> is \<^verbatim>\<open>2. * max_percent / (40. ** 2)\<close>, NaN when \<open>max_percent\<close> is.
\<close>

record trace =
  trace_name :: string
  trace_lon :: "real list"
  trace_lat :: "real list"
  marker_size :: "real list"
  marker_color :: string
  marker_sizemode :: string
  marker_sizeref :: "real option"
  marker_sizemin :: nat
  customdata :: "(string \<times> string \<times> nat \<times> nat \<times> real) list"

definition sizeref_of :: "real option \<Rightarrow> real option" where
  "sizeref_of max_percent = map_option (\<lambda>m. 2 * m / (40 ^ 2)) max_percent"

definition make_trace :: "real option \<Rightarrow> plot_row list \<Rightarrow> string \<Rightarrow> trace" where
  "make_trace max_percent cs drug =
     (let data = filter (\<lambda>r. dr_type r = drug) cs
      in \<lparr>trace_name = drug,
          trace_lon = map point_lon data,
          trace_lat = map point_lat data,
          marker_size = map percent data,
          marker_color = dict_get color_map drug ''gray'',
          marker_sizemode = ''area'',
          marker_sizeref = sizeref_of max_percent,
          marker_sizemin = 4,
          customdata =
            map (\<lambda>r. (country r, dr_type r, count r, total_samples r, percent r)) data\<rparr>)"

definition make_figure :: "plot_row list \<Rightarrow> trace list" where
  "make_figure cs =
     (let max_percent = column_max (map percent cs)
      in map (make_trace max_percent cs) selected_types)"

subsection \<open>The whole script\<close>

text \<open>
  From the table \<open>read_csv\<close> returns to the figure \<open>fig.show()\<close> displays, or to the
  error of line 71, together with the event log of the geocoding loop, which runs
  before line 71.
\<close>

definition plotted_rows ::
  "(string \<Rightarrow> string outcome) \<Rightarrow> (string \<Rightarrow> coord option outcome) \<Rightarrow> sample_row list
     \<Rightarrow> error + plot_row list" where
  "plotted_rows lookup geocode table =
     (let df = dropna table;
          counts = counts_iso lookup df;
          st = geocode_all geocode counts
      in case counts_coords (country_coords st) counts of
           Inl e \<Rightarrow> Inl e
         | Inr cs \<Rightarrow> Inr (counts_selected cs))"

definition script ::
  "(string \<Rightarrow> string outcome) \<Rightarrow> (string \<Rightarrow> coord option outcome) \<Rightarrow> sample_row list
     \<Rightarrow> (error + trace list) \<times> event list" where
  "script lookup geocode table =
     ((case plotted_rows lookup geocode table of
         Inl e \<Rightarrow> Inl e
       | Inr rows \<Rightarrow> Inr (make_figure rows)),
      events (geocode_all geocode (counts_iso lookup (dropna table))))"

subsection \<open>Closed form of a joined row, and example inputs\<close>

text \<open>
  \<open>merged_of\<close> is not a function of the script: it is the row that the join holds for
  the group key \<open>k\<close>, used to state what \<open>counts_merged\<close> computes.
\<close>

definition merged_of :: "(string \<times> string) list \<Rightarrow> string \<times> string \<Rightarrow> merged_row" where
  "merged_of df k =
     \<lparr>country = fst k, dr_type = snd k,
      count = length (filter (\<lambda>r. r = k) df),
      total_samples = length (filter (\<lambda>r. fst r = fst k) df)\<rparr>"

text \<open>
  An input table for the concrete checks: the Kenya scenario of the specification
  (eight Sensitive and two MDR-TB samples), a country without ISO code, the override
  Georgia with one displayed and one undisplayed label, two countries whose geocoding
  fails, and two rows with a missing cell.
\<close>

definition sample :: "string option \<Rightarrow> string option \<Rightarrow> sample_row" where
  "sample c t = \<lparr>Country_of_sample_collection = c, tbprofiler_dr_type = t\<rparr>"

definition example_table :: "sample_row list" where
  "example_table =
     replicate 8 (sample (Some ''Kenya'') (Some ''Sensitive''))
     @ replicate 2 (sample (Some ''Kenya'') (Some ''MDR-TB''))
     @ [sample (Some ''Atlantis'') (Some ''XDR-TB''),
        sample None (Some ''XDR-TB''),
        sample (Some ''Georgia'') (Some ''Other''),
        sample (Some ''Georgia'') (Some ''Unknown''),
        sample (Some ''Uganda'') None,
        sample (Some ''Uganda'') (Some ''RR-TB''),
        sample (Some ''Chad'') (Some ''HR-TB'')]"

definition example_lookup :: "string \<Rightarrow> string outcome" where
  "example_lookup n =
     (if n = ''Kenya'' then Returns ''KEN''
      else if n = ''Georgia'' then Returns ''GEO''
      else if n = ''Uganda'' then Returns ''UGA''
      else if n = ''Chad'' then Returns ''TCD''
      else Raises)"

definition example_geocode :: "string \<Rightarrow> coord option outcome" where
  "example_geocode n =
     (if n = ''Kenya'' then Returns (Some \<lparr>lat = 1.5, lon = 38\<rparr>)
      else if n = ''Chad'' then Returns None
      else Raises)"

text \<open>
  The aggregate of the example after the ISO-code drop, and the rows it has after
  line 71. The longitudes are binary64 numbers: \<open>5404319552844595 / 2 ^ 47\<close> is
  Python's \<open>38.0 + 0.4\<close>, printed 38.4, and \<open>6270826194899515 / 2 ^ 47\<close> is
  \<open>43.3569 + 1.2\<close>, printed 44.556900000000006.
\<close>

definition example_counts :: "iso_row list" where
  "example_counts = counts_iso example_lookup (dropna example_table)"

definition chad_hr :: plot_row where
  "chad_hr =
     \<lparr>country = ''Chad'', dr_type = ''HR-TB'', count = 1, total_samples = 1, percent = 100,
      iso_alpha = ''TCD'', point_lat = 0, point_lon = 8669429282688205 / 2 ^ 48\<rparr>"

definition georgia_other :: plot_row where
  "georgia_other =
     \<lparr>country = ''Georgia'', dr_type = ''Other'', count = 1, total_samples = 2, percent = 50,
      iso_alpha = ''GEO'', point_lat = 42.3154, point_lon = 6270826194899515 / 2 ^ 47\<rparr>"

definition georgia_unknown :: plot_row where
  "georgia_unknown =
     \<lparr>country = ''Georgia'', dr_type = ''Unknown'', count = 1, total_samples = 2, percent = 50,
      iso_alpha = ''GEO'', point_lat = 42.3154, point_lon = 6101941208873121 / 2 ^ 47\<rparr>"

definition kenya_mdr :: plot_row where
  "kenya_mdr =
     \<lparr>country = ''Kenya'', dr_type = ''MDR-TB'', count = 2, total_samples = 10, percent = 20,
      iso_alpha = ''KEN'', point_lat = 1.5, point_lon = 5404319552844595 / 2 ^ 47\<rparr>"

definition kenya_sensitive :: plot_row where
  "kenya_sensitive =
     \<lparr>country = ''Kenya'', dr_type = ''Sensitive'', count = 8, total_samples = 10,
      percent = 80, iso_alpha = ''KEN'', point_lat = 1.5, point_lon = 38\<rparr>"

definition uganda_rr :: plot_row where
  "uganda_rr =
     \<lparr>country = ''Uganda'', dr_type = ''RR-TB'', count = 1, total_samples = 1, percent = 100,
      iso_alpha = ''UGA'', point_lat = 0, point_lon = 8500544296661811 / 2 ^ 48\<rparr>"

definition example_unfiltered :: "plot_row list" where
  "example_unfiltered =
     [chad_hr, georgia_other, georgia_unknown, kenya_mdr, kenya_sensitive, uganda_rr]"

definition example_plotted_rows :: "plot_row list" where
  "example_plotted_rows = [chad_hr, georgia_other, kenya_mdr, kenya_sensitive, uganda_rr]"

section \<open>Properties\<close>

subsection \<open>Row cleaning and grouping\<close>

lemma set_dropna:
  "set (dropna table) =
     {(c, t). \<exists>r \<in> set table.
        Country_of_sample_collection r = Some c \<and> tbprofiler_dr_type r = Some t}"
  unfolding dropna_def
  by (induction table) (auto split: option.splits)

lemma length_filter_disjoint:
  "(\<And>x. \<not> (P x \<and> Q x)) \<Longrightarrow>
     length (filter P xs) + length (filter Q xs) = length (filter (\<lambda>x. P x \<or> Q x) xs)"
  by (induction xs) auto

text \<open>The sizes of the groups of distinct keys add up to the number of rows with such a key.\<close>

lemma sum_group_sizes:
  "distinct ks \<Longrightarrow>
     sum_list (map (\<lambda>k. length (filter (\<lambda>r. key r = k) df)) ks)
       = length (filter (\<lambda>r. key r \<in> set ks) df)"
proof (induction ks)
  case Nil
  then show ?case by simp
next
  case (Cons k ks)
  have "length (filter (\<lambda>r. key r = k) df) + length (filter (\<lambda>r. key r \<in> set ks) df)
          = length (filter (\<lambda>r. key r = k \<or> key r \<in> set ks) df)"
    using Cons.prems by (intro length_filter_disjoint) auto
  with Cons show ?case by simp
qed

lemma filter_eq_distinct:
  "distinct xs \<Longrightarrow> x \<in> set xs \<Longrightarrow> filter (\<lambda>k. k = x) xs = [x]"
proof (induction xs)
  case Nil
  then show ?case by simp
next
  case (Cons a xs)
  show ?case
  proof (cases "a = x")
    case True
    with Cons.prems have "x \<notin> set xs" by simp
    then have "filter (\<lambda>k. k = x) xs = []" by (induction xs) auto
    with True show ?thesis by simp
  next
    case False
    with Cons show ?thesis by simp
  qed
qed

text \<open>The per-country grouping has exactly one row for a country that occurs.\<close>

lemma total_row:
  assumes "C \<in> fst ` set df"
  shows "filter (\<lambda>(c, n). c = C) (total_per_country df)
           = [(C, length (filter (\<lambda>r. fst r = C) df))]"
proof -
  have "filter (\<lambda>(c, n). c = C) (total_per_country df)
          = map (\<lambda>k. (k, length (filter (\<lambda>r. fst r = k) df)))
              (filter (\<lambda>k. k = C) (sort (remdups (map fst df))))"
    by (simp add: total_per_country_def groupby_size_def filter_map comp_def)
  also have "filter (\<lambda>k. k = C) (sort (remdups (map fst df))) = [C]"
    using assms by (intro filter_eq_distinct) simp_all
  finally show ?thesis by simp
qed

lemma counts_of_country_sum:
  "sum_list (map snd (filter (\<lambda>((c, t), n). c = C) (counts_size df)))
     = length (filter (\<lambda>r. fst r = C) df)"
proof -
  let ?ks = "filter (\<lambda>k. fst k = C) (sort (remdups df))"
  have "filter (\<lambda>((c, t), n). c = C) (counts_size df)
          = map (\<lambda>k. (k, length (filter (\<lambda>r. r = k) df))) ?ks"
    by (simp add: counts_size_def groupby_size_def filter_map comp_def case_prod_unfold)
  then have "sum_list (map snd (filter (\<lambda>((c, t), n). c = C) (counts_size df)))
          = sum_list (map (\<lambda>k. length (filter (\<lambda>r. id r = k) df)) ?ks)"
    by (simp add: comp_def)
  also have "\<dots> = length (filter (\<lambda>r. id r \<in> set ?ks) df)"
    by (intro sum_group_sizes) simp
  also have "\<dots> = length (filter (\<lambda>r. fst r = C) df)"
    by (intro arg_cong[where f = length] filter_cong) auto
  finally show ?thesis .
qed

text \<open>The join finds one total for every count row: the joined table in closed form.\<close>

lemma counts_merged_eq:
  "counts_merged df = map (merged_of df) (sort (remdups df))"
proof -
  have one:
    "map (\<lambda>ct. \<lparr>country = fst (fst kn), dr_type = snd (fst kn), count = snd kn,
                  total_samples = snd ct\<rparr>)
       (filter (\<lambda>ct. fst ct = fst (fst kn)) (total_per_country df))
     = [merged_of df (fst kn)]"
    if "kn \<in> set (counts_size df)" for kn
  proof -
    from that have k: "fst kn \<in> set df" and n: "snd kn = length (filter (\<lambda>r. r = fst kn) df)"
      by (auto simp: counts_size_def groupby_size_def)
    from k have "fst (fst kn) \<in> fst ` set df" by (rule imageI)
    from total_row[OF this] n show ?thesis
      by (simp add: merged_of_def case_prod_unfold)
  qed
  have "counts_merged df
          = concat (map (\<lambda>kn.
              map (\<lambda>ct. \<lparr>country = fst (fst kn), dr_type = snd (fst kn), count = snd kn,
                         total_samples = snd ct\<rparr>)
                (filter (\<lambda>ct. fst ct = fst (fst kn)) (total_per_country df)))
              (counts_size df))"
    by (simp add: counts_merged_def merge_on_country_def case_prod_unfold)
  also have "\<dots> = concat (map (\<lambda>kn. [merged_of df (fst kn)]) (counts_size df))"
    by (intro arg_cong[where f = concat] map_cong refl one)
  also have "\<dots> = map (merged_of df) (sort (remdups df))"
    by (simp add: counts_size_def groupby_size_def comp_def)
  finally show ?thesis .
qed

text \<open>
  Claim C1. For every input table and every country \<open>C\<close> that occurs in a row with
  both cells present, the per-country grouping holds exactly one row for \<open>C\<close>, and its
  total-samples value is the sum of the raw counts of the (country, resistance type)
  groups of \<open>C\<close>.
\<close>

theorem counts_sum_to_total:
  assumes "r \<in> set table"
    and "Country_of_sample_collection r = Some C"
    and "tbprofiler_dr_type r \<noteq> None"
  shows "filter (\<lambda>(c, n). c = C) (total_per_country (dropna table))
           = [(C, sum_list (map snd
                   (filter (\<lambda>((c, t), n). c = C) (counts_size (dropna table)))))]"
proof -
  from assms obtain t where "(C, t) \<in> set (dropna table)"
    by (auto simp: set_dropna)
  then have "C \<in> fst ` set (dropna table)" by force
  from total_row[OF this] show ?thesis
    by (simp add: counts_of_country_sum)
qed

theorem counts_sum_to_total_witness:
  "sample (Some ''Kenya'') (Some ''MDR-TB'') \<in> set example_table
   \<and> Country_of_sample_collection (sample (Some ''Kenya'') (Some ''MDR-TB'')) = Some ''Kenya''
   \<and> tbprofiler_dr_type (sample (Some ''Kenya'') (Some ''MDR-TB'')) \<noteq> None
   \<and> filter (\<lambda>(c, n). c = ''Kenya'') (total_per_country (dropna example_table))
       = [(''Kenya'', 10)]
   \<and> map snd (filter (\<lambda>((c, t), n). c = ''Kenya'') (counts_size (dropna example_table)))
       = [2, 8]"
proof -
  let ?r = "sample (Some ''Kenya'') (Some ''MDR-TB'')"
  have h1: "?r \<in> set example_table" by (simp add: example_table_def)
  have h2: "Country_of_sample_collection ?r = Some ''Kenya''" by (simp add: sample_def)
  have h3: "tbprofiler_dr_type ?r \<noteq> None" by (simp add: sample_def)
  have cs: "map snd (filter (\<lambda>((c, t), n). c = ''Kenya'') (counts_size (dropna example_table)))
              = [2, 8]"
    by code_simp
  from counts_sum_to_total[OF h1 h2 h3] cs h1 h2 h3 show ?thesis by simp
qed

text \<open>
  Claim C3. Every row of the joined table, the table the percentage is computed on,
  comes from at least one input row with both cells present; its count is at least 1
  and at most its total-samples value, so the divisor of the percentage is never zero.
\<close>

theorem total_samples_positive:
  "\<forall>m \<in> set (counts_merged (dropna table)).
      1 \<le> count m \<and> count m \<le> total_samples m \<and> total_samples m \<noteq> 0 \<and>
      (\<exists>r \<in> set table. Country_of_sample_collection r = Some (country m) \<and>
                        tbprofiler_dr_type r = Some (dr_type m))"
proof
  fix m assume "m \<in> set (counts_merged (dropna table))"
  then obtain k where k: "k \<in> set (dropna table)" and m: "m = merged_of (dropna table) k"
    by (auto simp: counts_merged_eq)
  from k have "filter (\<lambda>r. r = k) (dropna table) \<noteq> []"
    by (auto simp: filter_empty_conv)
  then have c: "1 \<le> count m"
    by (simp add: m merged_of_def Suc_le_eq)
  have "length (filter (\<lambda>r. r = k) (dropna table))
          = length (filter (\<lambda>r. r = k) (filter (\<lambda>r. fst r = fst k) (dropna table)))"
    by (intro arg_cong[where f = length]) (auto intro: filter_cong)
  also have "\<dots> \<le> length (filter (\<lambda>r. fst r = fst k) (dropna table))"
    by (rule length_filter_le)
  finally have le: "count m \<le> total_samples m"
    by (simp add: m merged_of_def)
  obtain c t where ct: "k = (c, t)" by (cases k)
  have "\<exists>r \<in> set table. Country_of_sample_collection r = Some (country m) \<and>
                        tbprofiler_dr_type r = Some (dr_type m)"
    using k by (simp add: set_dropna m merged_of_def ct)
  with c le show "1 \<le> count m \<and> count m \<le> total_samples m \<and> total_samples m \<noteq> 0 \<and>
      (\<exists>r \<in> set table. Country_of_sample_collection r = Some (country m) \<and>
                        tbprofiler_dr_type r = Some (dr_type m))"
    by simp
qed

theorem total_samples_positive_witness:
  "\<lparr>country = ''Kenya'', dr_type = ''MDR-TB'', count = 2, total_samples = 10\<rparr>
     \<in> set (counts_merged (dropna example_table))
   \<and> 1 \<le> count \<lparr>country = ''Kenya'', dr_type = ''MDR-TB'', count = 2, total_samples = 10\<rparr>
   \<and> total_samples
        \<lparr>country = ''Kenya'', dr_type = ''MDR-TB'', count = 2, total_samples = 10\<rparr> \<noteq> 0
   \<and> (\<exists>r \<in> set example_table.
         Country_of_sample_collection r = Some ''Kenya'' \<and>
         tbprofiler_dr_type r = Some ''MDR-TB'')"
proof -
  let ?m = "\<lparr>country = ''Kenya'', dr_type = ''MDR-TB'', count = 2, total_samples = 10\<rparr>"
  have "counts_merged (dropna example_table)
     = [\<lparr>country = ''Atlantis'', dr_type = ''XDR-TB'', count = 1, total_samples = 1\<rparr>,
        \<lparr>country = ''Chad'', dr_type = ''HR-TB'', count = 1, total_samples = 1\<rparr>,
        \<lparr>country = ''Georgia'', dr_type = ''Other'', count = 1, total_samples = 2\<rparr>,
        \<lparr>country = ''Georgia'', dr_type = ''Unknown'', count = 1, total_samples = 2\<rparr>,
        \<lparr>country = ''Kenya'', dr_type = ''MDR-TB'', count = 2, total_samples = 10\<rparr>,
        \<lparr>country = ''Kenya'', dr_type = ''Sensitive'', count = 8, total_samples = 10\<rparr>,
        \<lparr>country = ''Uganda'', dr_type = ''RR-TB'', count = 1, total_samples = 1\<rparr>]"
    by code_simp
  then have mem: "?m \<in> set (counts_merged (dropna example_table))" by simp
  from total_samples_positive[of example_table, rule_format, OF mem] mem
  show ?thesis by simp
qed

subsection \<open>Percentages\<close>

lemma sum_list_percent:
  "sum_list (map (\<lambda>k. real (f k) / N * 100) ks) = real (sum_list (map f ks)) / N * 100"
  by (induction ks) (simp_all add: add_divide_distrib distrib_right)

lemma country_rows_percent:
  "map percent (filter (\<lambda>m. country m = C) (counts_percent df))
     = map (\<lambda>k. real (length (filter (\<lambda>r. id r = k) df))
                  / real (length (filter (\<lambda>r. fst r = C) df)) * 100)
         (filter (\<lambda>k. fst k = C) (sort (remdups df)))"
proof -
  have "map percent (filter (\<lambda>m. country m = C) (counts_percent df))
     = map (\<lambda>k. real (length (filter (\<lambda>r. r = k) df))
                  / real (length (filter (\<lambda>r. fst r = fst k) df)) * 100)
         (filter (\<lambda>k. fst k = C) (sort (remdups df)))"
    by (simp add: counts_percent_def counts_merged_eq filter_map comp_def
        add_percent_def merged_of_def)
  also have "\<dots> = map (\<lambda>k. real (length (filter (\<lambda>r. id r = k) df))
                  / real (length (filter (\<lambda>r. fst r = C) df)) * 100)
         (filter (\<lambda>k. fst k = C) (sort (remdups df)))"
    by (rule map_cong) simp_all
  finally show ?thesis .
qed

text \<open>
  Claim C2. For every country present after row cleaning, the percent values of its
  rows in the aggregate (all resistance-type labels of the country, before the ISO-code
  drop and the seven-type filter) sum to 100. The division is exact in this model, so
  the sum is exactly 100; the tolerance of the claim is for the rounding of the float
  division, which is not modelled.
\<close>

theorem percent_sum_100:
  assumes "C \<in> fst ` set (dropna table)"
  shows "sum_list (map percent
           (filter (\<lambda>m. country m = C) (counts_percent (dropna table)))) = 100"
proof -
  let ?df = "dropna table"
  let ?ks = "filter (\<lambda>k. fst k = C) (sort (remdups ?df))"
  let ?N = "length (filter (\<lambda>r. fst r = C) ?df)"
  from assms have "filter (\<lambda>r. fst r = C) ?df \<noteq> []"
    by (auto simp: filter_empty_conv)
  then have N: "real ?N \<noteq> 0" by simp
  have "sum_list (map (\<lambda>k. length (filter (\<lambda>r. id r = k) ?df)) ?ks)
          = length (filter (\<lambda>r. id r \<in> set ?ks) ?df)"
    by (intro sum_group_sizes) simp
  also have "\<dots> = ?N"
    by (intro arg_cong[where f = length] filter_cong) auto
  finally have s: "sum_list (map (\<lambda>k. length (filter (\<lambda>r. id r = k) ?df)) ?ks) = ?N" .
  have "sum_list (map percent (filter (\<lambda>m. country m = C) (counts_percent ?df)))
          = real ?N / real ?N * 100"
    by (simp only: country_rows_percent sum_list_percent s)
  with N show ?thesis by simp
qed

theorem percent_sum_100_witness:
  "''Kenya'' \<in> fst ` set (dropna example_table)
   \<and> map percent (filter (\<lambda>m. country m = ''Kenya'') (counts_percent (dropna example_table)))
       = [20, 80]
   \<and> sum_list (map percent
        (filter (\<lambda>m. country m = ''Kenya'') (counts_percent (dropna example_table)))) = 100"
proof -
  have h: "''Kenya'' \<in> fst ` set (dropna example_table)" by code_simp
  have v: "map percent (filter (\<lambda>m. country m = ''Kenya'') (counts_percent (dropna example_table)))
       = [20, 80]" by code_simp
  from percent_sum_100[OF h] h v show ?thesis by simp
qed


subsection \<open>Binary64 rounding\<close>

lemma pow2_powr: "pow2 e = 2 powr (of_int e)"
proof (cases "0 \<le> e")
  case True
  then have "2 powr (of_int e) = (2::real) powr (real (nat e))" by simp
  also have "\<dots> = 2 ^ nat e" by (simp add: powr_realpow)
  finally show ?thesis using True by (simp add: pow2_def)
next
  case False
  then have "(2::real) powr (of_int e) = 2 powr (- real (nat (- e)))" by simp
  also have "\<dots> = 1 / 2 ^ nat (- e)" by (simp add: powr_minus powr_realpow divide_inverse)
  finally show ?thesis using False by (simp add: pow2_def)
qed

lemma pow2_pos: "0 < pow2 e"
  by (simp add: pow2_powr)

lemma pow2_add: "pow2 (a + b) = pow2 a * pow2 b"
  by (simp add: pow2_powr powr_add)

lemma pow2_mono: "a \<le> b \<Longrightarrow> pow2 a \<le> pow2 b"
  by (simp add: pow2_powr)

lemma pow2_nat: "0 \<le> e \<Longrightarrow> pow2 e = of_int (2 ^ nat e)"
  by (simp add: pow2_def)

lemma round_half_even_error: "\<bar>of_int (round_half_even y) - y\<bar> \<le> 1 / 2"
  unfolding round_half_even_def Let_def
  by (auto simp: abs_le_iff)

lemma round_half_even_int: "round_half_even (of_int k) = k"
  by (simp add: round_half_even_def)

lemma bitlen_ge_1: "0 < m \<Longrightarrow> 1 \<le> bitlen m"
  by (auto simp: bitlen_alt_def)

lemma exponent_bounds:
  assumes "x \<noteq> 0"
  shows "pow2 (exponent x) \<le> \<bar>x\<bar> \<and> \<bar>x\<bar> < pow2 (exponent x + 1)"
proof (cases "1 \<le> \<bar>x\<bar>")
  case True
  let ?n = "\<lfloor>\<bar>x\<bar>\<rfloor>"
  from True have n: "0 < ?n" by linarith
  from bitlen_bounds[OF n] have lo: "2 ^ nat (bitlen ?n - 1) \<le> ?n" and hi: "?n < 2 ^ nat (bitlen ?n)"
    by simp_all
  from bitlen_ge_1[OF n] have b: "0 \<le> bitlen ?n - 1" "0 \<le> bitlen ?n" by simp_all
  have e: "exponent x = bitlen ?n - 1" using True by (simp add: exponent_def)
  have "pow2 (bitlen ?n - 1) = of_int (2 ^ nat (bitlen ?n - 1))" by (rule pow2_nat[OF b(1)])
  also have "\<dots> \<le> of_int ?n" using lo by (simp only: of_int_le_iff)
  also have "\<dots> \<le> \<bar>x\<bar>" by simp
  finally have 1: "pow2 (exponent x) \<le> \<bar>x\<bar>" by (simp add: e)
  from hi have "?n + 1 \<le> 2 ^ nat (bitlen ?n)" by simp
  then have "of_int (?n + 1) \<le> (of_int (2 ^ nat (bitlen ?n)) :: real)" by (simp only: of_int_le_iff)
  moreover have "\<bar>x\<bar> < of_int (?n + 1)" by linarith
  ultimately have "\<bar>x\<bar> < of_int (2 ^ nat (bitlen ?n))" by linarith
  then have 2: "\<bar>x\<bar> < pow2 (exponent x + 1)" by (simp add: e pow2_nat[OF b(2)])
  from 1 2 show ?thesis ..
next
  case False
  let ?y = "1 / \<bar>x\<bar>"
  let ?m = "\<lceil>?y\<rceil> - 1"
  from False assms have x: "0 < \<bar>x\<bar>" "\<bar>x\<bar> < 1" by simp_all
  then have y: "1 < ?y" by simp
  then have m: "0 < ?m" by linarith
  from bitlen_bounds[OF m] have lo: "2 ^ nat (bitlen ?m - 1) \<le> ?m" and hi: "?m < 2 ^ nat (bitlen ?m)"
    by simp_all
  from bitlen_ge_1[OF m] have b: "1 \<le> bitlen ?m" .
  have e: "exponent x = - bitlen ?m" using False by (simp add: exponent_def)
  from hi have "\<lceil>?y\<rceil> \<le> 2 ^ nat (bitlen ?m)" by simp
  then have "(of_int \<lceil>?y\<rceil> :: real) \<le> of_int (2 ^ nat (bitlen ?m))" by (simp only: of_int_le_iff)
  then have "(of_int \<lceil>?y\<rceil> :: real) \<le> 2 ^ nat (bitlen ?m)" by (simp only: of_int_power of_int_numeral)
  moreover have "?y \<le> of_int \<lceil>?y\<rceil>" by (rule le_of_int_ceiling)
  ultimately have yle: "?y \<le> 2 ^ nat (bitlen ?m)" by (rule order_trans[rotated])
  have "1 / 2 ^ nat (bitlen ?m) \<le> 1 / ?y"
    using yle y x by (intro divide_left_mono) simp_all
  then have 1: "pow2 (exponent x) \<le> \<bar>x\<bar>"
    using b by (simp add: e pow2_def)
  have "(of_int (2 ^ nat (bitlen ?m - 1)) :: real) \<le> of_int ?m" using lo by (simp only: of_int_le_iff)
  then have "(2 ^ nat (bitlen ?m - 1) :: real) \<le> of_int ?m" by (simp only: of_int_power of_int_numeral)
  moreover have "of_int ?m < ?y" by linarith
  ultimately have ygt: "2 ^ nat (bitlen ?m - 1) < ?y" by (rule le_less_trans)
  have "1 / ?y < 1 / 2 ^ nat (bitlen ?m - 1)"
    using ygt x by (intro divide_strict_left_mono) simp_all
  then have "\<bar>x\<bar> < 1 / 2 ^ nat (bitlen ?m - 1)" by simp
  moreover have "pow2 (exponent x + 1) = 1 / 2 ^ nat (bitlen ?m - 1)"
  proof (cases "bitlen ?m = 1")
    case True
    then show ?thesis by (simp add: e pow2_def)
  next
    case False
    with b have "1 < bitlen ?m" by simp
    then show ?thesis by (simp add: e pow2_def)
  qed
  ultimately have 2: "\<bar>x\<bar> < pow2 (exponent x + 1)" by simp
  from 1 2 show ?thesis ..
qed


lemma round64_multiple:
  "\<exists>k. round64 x = of_int k * pow2 (- 1074)"
proof (cases "x = 0")
  case True
  then show ?thesis by (intro exI[of _ 0]) (simp add: round64_def)
next
  case False
  let ?e = "max (exponent x) (- 1022) - 52"
  let ?k = "round_half_even (x / pow2 ?e)"
  have "0 \<le> ?e + 1074" by simp
  have "pow2 ?e = pow2 (?e + 1074) * pow2 (- 1074)"
    by (simp add: pow2_add[symmetric])
  also have "pow2 (?e + 1074) = of_int (2 ^ nat (?e + 1074))"
    by (rule pow2_nat) simp
  finally have "round64 x = of_int (?k * 2 ^ nat (?e + 1074)) * pow2 (- 1074)"
    using False by (simp add: round64_def Let_def)
  then show ?thesis ..
qed

lemma abs_scaled_diff:
  fixes k x u :: real
  assumes "0 < u"
  shows "\<bar>k * u - x\<bar> = \<bar>k - x / u\<bar> * u"
proof -
  from assms have "k * u - x = (k - x / u) * u" by (simp add: field_simps)
  then have "\<bar>k * u - x\<bar> = \<bar>k - x / u\<bar> * \<bar>u\<bar>" by (simp only: abs_mult)
  with assms show ?thesis by simp
qed

lemma round64_error_normal:
  assumes "x \<noteq> 0" and "- 1022 \<le> exponent x"
  shows "\<bar>round64 x - x\<bar> \<le> \<bar>x\<bar> / 2 ^ 53"
proof -
  let ?u = "pow2 (exponent x - 52)"
  have u: "0 < ?u" by (rule pow2_pos)
  from assms have r: "round64 x = of_int (round_half_even (x / ?u)) * ?u"
    by (simp add: round64_def Let_def max_def)
  have "\<bar>round64 x - x\<bar> = \<bar>of_int (round_half_even (x / ?u)) - x / ?u\<bar> * ?u"
    unfolding r by (rule abs_scaled_diff[OF u])
  also have "\<dots> \<le> 1 / 2 * ?u"
    using u round_half_even_error[of "x / ?u"] by (intro mult_right_mono) simp_all
  also have "\<dots> = pow2 (exponent x) / 2 ^ 53"
  proof -
    have "?u = pow2 (exponent x) * pow2 (- 52)"
      using pow2_add[of "exponent x" "- 52"] by simp
    moreover have "pow2 (- 52) = 1 / 2 ^ 52" by (simp add: pow2_def)
    ultimately show ?thesis by simp
  qed
  also have "\<dots> \<le> \<bar>x\<bar> / 2 ^ 53"
    using exponent_bounds[OF assms(1)] by (intro divide_right_mono) simp_all
  finally show ?thesis .
qed

lemma round64_exact_subnormal:
  assumes "x = of_int m * pow2 (- 1074)" and "x \<noteq> 0" and "exponent x < - 1022"
  shows "round64 x = x"
proof -
  from assms(3) have "max (exponent x) (- 1022) - 52 = - 1074" by simp
  then have "round64 x = of_int (round_half_even (x / pow2 (- 1074))) * pow2 (- 1074)"
    using assms(2) by (simp add: round64_def Let_def)
  also have "x / pow2 (- 1074) = of_int m"
    using pow2_pos[of "- 1074"] by (simp add: assms(1))
  finally show ?thesis by (simp add: round_half_even_int assms(1))
qed

lemma fadd_error:
  "\<bar>fadd x y - (round64 x + round64 y)\<bar> \<le> \<bar>round64 x + round64 y\<bar> / 2 ^ 53"
proof -
  let ?s = "round64 x + round64 y"
  obtain k where k: "round64 x = of_int k * pow2 (- 1074)" using round64_multiple by blast
  obtain l where l: "round64 y = of_int l * pow2 (- 1074)" using round64_multiple by blast
  have s: "?s = of_int (k + l) * pow2 (- 1074)" by (simp add: k l distrib_right)
  show ?thesis
  proof (cases "?s = 0")
    case True
    then show ?thesis by (simp add: fadd_def round64_def)
  next
    case False
    show ?thesis
    proof (cases "- 1022 \<le> exponent ?s")
      case True
      from round64_error_normal[OF False True] show ?thesis by (simp add: fadd_def)
    next
      case False
      then have "exponent ?s < - 1022" by simp
      from round64_exact_subnormal[OF s \<open>?s \<noteq> 0\<close> this] show ?thesis by (simp add: fadd_def)
    qed
  qed
qed


subsection \<open>Rows and traces of the later stages\<close>

lemma dropna_iso_mem:
  "m \<in> set (dropna_iso (assign_iso lookup cs)) \<Longrightarrow>
     get_iso3 lookup (country m) = Some (iso_alpha m) \<and>
     (\<exists>p \<in> set cs. country p = country m \<and> dr_type p = dr_type m \<and> count p = count m \<and>
        total_samples p = total_samples m \<and> percent p = percent m)"
  unfolding dropna_iso_def assign_iso_def
  by (induction cs) (auto split: option.splits)

lemma counts_iso_country:
  "m \<in> set (counts_iso lookup df) \<Longrightarrow> get_iso3 lookup (country m) = Some (iso_alpha m)"
  unfolding counts_iso_def by (drule dropna_iso_mem) simp

lemma with_coords_fields [simp]:
  "country (with_coords cc r) = country r"
  "dr_type (with_coords cc r) = dr_type r"
  "count (with_coords cc r) = count r"
  "total_samples (with_coords cc r) = total_samples r"
  "percent (with_coords cc r) = percent r"
  "iso_alpha (with_coords cc r) = iso_alpha r"
  "point_lat (with_coords cc r) = lat (apply_coords cc r)"
  "point_lon (with_coords cc r) = lon (apply_coords cc r)"
  by (simp_all add: with_coords_def Let_def)

text \<open>Line 71 fails exactly on the aggregate with no row.\<close>

lemma counts_coords_Inr:
  "cs \<noteq> [] \<Longrightarrow> counts_coords cc cs = Inr (map (with_coords cc) cs)"
  by (simp add: counts_coords_def)

lemma counts_coords_eq_Inr:
  "counts_coords cc cs = Inr rows \<longleftrightarrow> cs \<noteq> [] \<and> rows = map (with_coords cc) cs"
  by (auto simp: counts_coords_def)

lemma plotted_rows_eq:
  "plotted_rows lookup geocode table
     = (if counts_iso lookup (dropna table) = [] then Inl ValueError
        else Inr (counts_selected
               (map (with_coords
                       (country_coords (geocode_all geocode (counts_iso lookup (dropna table)))))
                  (counts_iso lookup (dropna table)))))"
  by (simp add: plotted_rows_def Let_def counts_coords_def)

lemma plotted_rows_mem:
  assumes "plotted_rows lookup geocode table = Inr rows"
  shows "m \<in> set rows \<longleftrightarrow>
     dr_type m \<in> set selected_types \<and>
     (\<exists>r \<in> set (counts_iso lookup (dropna table)).
        m = with_coords (country_coords (geocode_all geocode (counts_iso lookup (dropna table)))) r)"
  using assms by (auto simp: plotted_rows_eq counts_selected_def split: if_splits)

lemma script_fst:
  "fst (script lookup geocode table)
     = (case plotted_rows lookup geocode table of
          Inl e \<Rightarrow> Inl e
        | Inr rows \<Rightarrow> Inr (make_figure rows))"
  by (simp add: script_def)

lemma script_fst_Inl:
  "counts_iso lookup (dropna table) = [] \<Longrightarrow> fst (script lookup geocode table) = Inl ValueError"
  by (simp add: script_fst plotted_rows_eq)

lemma script_fst_Inr:
  "fst (script lookup geocode table) = Inr fig \<longleftrightarrow>
     (\<exists>rows. plotted_rows lookup geocode table = Inr rows \<and> fig = make_figure rows)"
  by (auto simp: script_fst split: sum.splits)

lemma make_figure_mem:
  "tr \<in> set (make_figure cs) \<longleftrightarrow>
     (\<exists>drug \<in> set selected_types. tr = make_trace (column_max (map percent cs)) cs drug)"
  by (auto simp: make_figure_def Let_def)

lemma make_trace_fields [simp]:
  "trace_name (make_trace M cs drug) = drug"
  "marker_sizeref (make_trace M cs drug) = sizeref_of M"
  "customdata (make_trace M cs drug)
     = map (\<lambda>r. (country r, dr_type r, count r, total_samples r, percent r))
         (filter (\<lambda>r. dr_type r = drug) cs)"
  "trace_lon (make_trace M cs drug) = map point_lon (filter (\<lambda>r. dr_type r = drug) cs)"
  "trace_lat (make_trace M cs drug) = map point_lat (filter (\<lambda>r. dr_type r = drug) cs)"
  "marker_size (make_trace M cs drug) = map percent (filter (\<lambda>r. dr_type r = drug) cs)"
  by (simp_all add: make_trace_def Let_def)

text \<open>The example, stage by stage.\<close>

lemma example_counts_nonempty: "counts_iso example_lookup (dropna example_table) \<noteq> []"
  by code_simp

lemma example_coords:
  "counts_coords (country_coords (geocode_all example_geocode example_counts)) example_counts
     = Inr example_unfiltered"
  by code_simp

lemma example_selected: "counts_selected example_unfiltered = example_plotted_rows"
  by code_simp

lemma example_plotted:
  "plotted_rows example_lookup example_geocode example_table = Inr example_plotted_rows"
  by code_simp

lemma example_figure:
  "fst (script example_lookup example_geocode example_table)
     = Inr (make_figure example_plotted_rows)"
  by (simp add: script_fst example_plotted)

lemma empty_table_fails: "fst (script example_lookup example_geocode []) = Inl ValueError"
  by code_simp

subsection \<open>Country-code resolver\<close>

text \<open>
  Claim C4. When the ISO lookup of a country name raises, \<open>get_iso3\<close> returns
  \<open>None\<close> (one call, no second attempt), no row of that country is left after the
  ISO-code drop, none is among the plotted rows, and the name occurs in the
  \<open>customdata\<close> of no trace of the figure, whatever the resistance types of its rows.
\<close>

theorem iso_failure_drops_country:
  assumes "lookup C = Raises"
  shows "get_iso3 lookup C = None
    \<and> C \<notin> country ` set (counts_iso lookup (dropna table))
    \<and> (\<forall>rows. plotted_rows lookup geocode table = Inr rows \<longrightarrow> C \<notin> country ` set rows)
    \<and> (\<forall>fig. fst (script lookup geocode table) = Inr fig \<longrightarrow>
          C \<notin> fst ` (\<Union>tr \<in> set fig. set (customdata tr)))"
proof -
  from assms have g: "get_iso3 lookup C = None" by (simp add: get_iso3_def)
  have a: "C \<notin> country ` set (counts_iso lookup (dropna table))"
  proof
    assume "C \<in> country ` set (counts_iso lookup (dropna table))"
    then obtain m where "m \<in> set (counts_iso lookup (dropna table))" "country m = C" by auto
    with counts_iso_country[of m lookup "dropna table"] g show False by simp
  qed
  have b: "C \<notin> country ` set rows" if rows: "plotted_rows lookup geocode table = Inr rows" for rows
  proof
    assume "C \<in> country ` set rows"
    then obtain m where "m \<in> set rows" "country m = C" by auto
    then obtain r where "r \<in> set (counts_iso lookup (dropna table))" "country r = C"
      by (auto simp: plotted_rows_mem[OF rows])
    with a show False by auto
  qed
  have c: "C \<notin> fst ` (\<Union>tr \<in> set fig. set (customdata tr))"
    if fig: "fst (script lookup geocode table) = Inr fig" for fig
  proof
    assume "C \<in> fst ` (\<Union>tr \<in> set fig. set (customdata tr))"
    then obtain tr d where tr: "tr \<in> set fig" and d: "d \<in> set (customdata tr)" "fst d = C"
      by auto
    from fig obtain rows where rows: "plotted_rows lookup geocode table = Inr rows"
      and f: "fig = make_figure rows"
      by (auto simp: script_fst_Inr)
    from tr f obtain drug where "tr = make_trace (column_max (map percent rows)) rows drug"
      by (auto simp: make_figure_mem)
    with d obtain m where "m \<in> set rows" "country m = C" by auto
    with b[OF rows] show False by auto
  qed
  from g a b c show ?thesis by simp
qed

theorem iso_failure_drops_country_witness:
  "example_lookup ''Atlantis'' = Raises
   \<and> (''Atlantis'', ''XDR-TB'') \<in> set (dropna example_table)
   \<and> get_iso3 example_lookup ''Atlantis'' = None
   \<and> ''Atlantis'' \<notin> country ` set (counts_iso example_lookup (dropna example_table))
   \<and> plotted_rows example_lookup example_geocode example_table = Inr example_plotted_rows
   \<and> ''Atlantis'' \<notin> country ` set example_plotted_rows
   \<and> fst (script example_lookup example_geocode example_table)
       = Inr (make_figure example_plotted_rows)
   \<and> ''Atlantis'' \<notin> fst ` (\<Union>tr \<in> set (make_figure example_plotted_rows). set (customdata tr))"
proof -
  have h: "example_lookup ''Atlantis'' = Raises" by (simp add: example_lookup_def)
  have i: "(''Atlantis'', ''XDR-TB'') \<in> set (dropna example_table)" by code_simp
  from iso_failure_drops_country
         [of example_lookup "''Atlantis''" example_table example_geocode, OF h]
       h i example_plotted example_figure
  show ?thesis by simp
qed

subsection \<open>Renderer\<close>

lemma selected_types_set:
  "set selected_types
     = {''Sensitive'', ''Other'', ''HR-TB'', ''RR-TB'', ''MDR-TB'', ''Pre-XDR-TB'', ''XDR-TB''}"
  by (simp add: selected_types_def)

text \<open>
  Claim C7. On an aggregate with no row the script raises at line 71 and builds no
  figure. On every other input it builds a figure with one trace for each of the seven
  labels Sensitive, Other, HR-TB, RR-TB, MDR-TB, Pre-XDR-TB, XDR-TB, in this order; the
  coordinate, size and \<open>customdata\<close> lists of a trace are parallel and every point of
  a trace carries the label of the trace. Every plotted row carries one of the seven
  labels; and a row of any table \<open>cs\<close> reaching the filter with another label is
  removed by it and occurs in no trace.
\<close>

theorem only_seven_types_rendered:
  "(counts_iso lookup (dropna table) = [] \<longrightarrow>
      fst (script lookup geocode table) = Inl ValueError)
   \<and> (counts_iso lookup (dropna table) \<noteq> [] \<longrightarrow>
        (\<exists>fig. fst (script lookup geocode table) = Inr fig
           \<and> map trace_name fig
               = [''Sensitive'', ''Other'', ''HR-TB'', ''RR-TB'', ''MDR-TB'', ''Pre-XDR-TB'',
                  ''XDR-TB'']
           \<and> (\<forall>tr \<in> set fig.
                 length (trace_lon tr) = length (customdata tr) \<and>
                 length (trace_lat tr) = length (customdata tr) \<and>
                 length (marker_size tr) = length (customdata tr) \<and>
                 (\<forall>d \<in> set (customdata tr). fst (snd d) = trace_name tr))))
   \<and> (\<forall>rows. plotted_rows lookup geocode table = Inr rows \<longrightarrow>
         (\<forall>m \<in> set rows.
            dr_type m \<in> {''Sensitive'', ''Other'', ''HR-TB'', ''RR-TB'', ''MDR-TB'',
                          ''Pre-XDR-TB'', ''XDR-TB''}))
   \<and> (\<forall>m \<in> set cs.
         dr_type m \<notin> {''Sensitive'', ''Other'', ''HR-TB'', ''RR-TB'', ''MDR-TB'',
                       ''Pre-XDR-TB'', ''XDR-TB''}
         \<longrightarrow> m \<notin> set (counts_selected cs) \<and>
             (\<forall>tr \<in> set (make_figure (counts_selected cs)).
                (country m, dr_type m, count m, total_samples m, percent m)
                  \<notin> set (customdata tr)))"
proof (intro conjI impI allI)
  assume "counts_iso lookup (dropna table) = []"
  then show "fst (script lookup geocode table) = Inl ValueError"
    by (rule script_fst_Inl)
next
  assume ne: "counts_iso lookup (dropna table) \<noteq> []"
  then obtain rows where rows: "plotted_rows lookup geocode table = Inr rows"
    by (simp add: plotted_rows_eq)
  let ?fig = "make_figure rows"
  have 1: "fst (script lookup geocode table) = Inr ?fig"
    by (simp add: script_fst rows)
  have 2: "map trace_name ?fig
     = [''Sensitive'', ''Other'', ''HR-TB'', ''RR-TB'', ''MDR-TB'', ''Pre-XDR-TB'', ''XDR-TB'']"
    by (simp add: make_figure_def Let_def comp_def selected_types_def)
  have 3: "\<forall>tr \<in> set ?fig.
         length (trace_lon tr) = length (customdata tr) \<and>
         length (trace_lat tr) = length (customdata tr) \<and>
         length (marker_size tr) = length (customdata tr) \<and>
         (\<forall>d \<in> set (customdata tr). fst (snd d) = trace_name tr)"
    by (auto simp: make_figure_mem)
  from 1 2 3
  show "\<exists>fig. fst (script lookup geocode table) = Inr fig
           \<and> map trace_name fig
               = [''Sensitive'', ''Other'', ''HR-TB'', ''RR-TB'', ''MDR-TB'', ''Pre-XDR-TB'',
                  ''XDR-TB'']
           \<and> (\<forall>tr \<in> set fig.
                 length (trace_lon tr) = length (customdata tr) \<and>
                 length (trace_lat tr) = length (customdata tr) \<and>
                 length (marker_size tr) = length (customdata tr) \<and>
                 (\<forall>d \<in> set (customdata tr). fst (snd d) = trace_name tr))"
    by (intro exI[of _ ?fig] conjI)
next
  fix rows
  assume rows: "plotted_rows lookup geocode table = Inr rows"
  show "\<forall>m \<in> set rows.
            dr_type m \<in> {''Sensitive'', ''Other'', ''HR-TB'', ''RR-TB'', ''MDR-TB'',
                          ''Pre-XDR-TB'', ''XDR-TB''}"
    unfolding selected_types_set[symmetric] by (simp add: plotted_rows_mem[OF rows])
next
  show "\<forall>m \<in> set cs.
         dr_type m \<notin> {''Sensitive'', ''Other'', ''HR-TB'', ''RR-TB'', ''MDR-TB'',
                       ''Pre-XDR-TB'', ''XDR-TB''}
         \<longrightarrow> m \<notin> set (counts_selected cs) \<and>
             (\<forall>tr \<in> set (make_figure (counts_selected cs)).
                (country m, dr_type m, count m, total_samples m, percent m)
                  \<notin> set (customdata tr))"
    unfolding selected_types_set[symmetric]
    by (auto simp: counts_selected_def make_figure_mem)
qed

theorem only_seven_types_rendered_witness:
  "counts_iso example_lookup (dropna example_table) \<noteq> []
   \<and> georgia_unknown \<in> set example_unfiltered
   \<and> dr_type georgia_unknown = ''Unknown''
   \<and> ''Unknown'' \<notin> {''Sensitive'', ''Other'', ''HR-TB'', ''RR-TB'', ''MDR-TB'',
                       ''Pre-XDR-TB'', ''XDR-TB''}
   \<and> plotted_rows example_lookup example_geocode example_table
       = Inr (counts_selected example_unfiltered)
   \<and> georgia_unknown \<notin> set (counts_selected example_unfiltered)
   \<and> (\<exists>fig. fst (script example_lookup example_geocode example_table) = Inr fig
         \<and> map (\<lambda>tr. (trace_name tr, map (\<lambda>d. (fst d, fst (snd d))) (customdata tr))) fig
             = [(''Sensitive'', [(''Kenya'', ''Sensitive'')]),
                (''Other'', [(''Georgia'', ''Other'')]),
                (''HR-TB'', [(''Chad'', ''HR-TB'')]),
                (''RR-TB'', [(''Uganda'', ''RR-TB'')]),
                (''MDR-TB'', [(''Kenya'', ''MDR-TB'')]),
                (''Pre-XDR-TB'', []),
                (''XDR-TB'', [])])
   \<and> counts_iso example_lookup (dropna []) = []
   \<and> fst (script example_lookup example_geocode []) = Inl ValueError"
proof -
  note t = only_seven_types_rendered
  have ne: "counts_iso example_lookup (dropna example_table) \<noteq> []"
    by (rule example_counts_nonempty)
  have mem: "georgia_unknown \<in> set example_unfiltered" by (simp add: example_unfiltered_def)
  have ty: "dr_type georgia_unknown = ''Unknown''" by (simp add: georgia_unknown_def)
  have no: "dr_type georgia_unknown \<notin> {''Sensitive'', ''Other'', ''HR-TB'', ''RR-TB'', ''MDR-TB'',
                       ''Pre-XDR-TB'', ''XDR-TB''}" by (simp add: ty)
  from t[of example_lookup example_table example_geocode example_unfiltered]
  have "\<forall>m \<in> set example_unfiltered.
         dr_type m \<notin> {''Sensitive'', ''Other'', ''HR-TB'', ''RR-TB'', ''MDR-TB'',
                       ''Pre-XDR-TB'', ''XDR-TB''}
         \<longrightarrow> m \<notin> set (counts_selected example_unfiltered)"
    by blast
  with mem no have out: "georgia_unknown \<notin> set (counts_selected example_unfiltered)" by blast
  have pl: "plotted_rows example_lookup example_geocode example_table
       = Inr (counts_selected example_unfiltered)"
    by (simp only: example_plotted example_selected)
  have fig: "map (\<lambda>tr. (trace_name tr, map (\<lambda>d. (fst d, fst (snd d))) (customdata tr)))
               (make_figure example_plotted_rows)
             = [(''Sensitive'', [(''Kenya'', ''Sensitive'')]),
                (''Other'', [(''Georgia'', ''Other'')]),
                (''HR-TB'', [(''Chad'', ''HR-TB'')]),
                (''RR-TB'', [(''Uganda'', ''RR-TB'')]),
                (''MDR-TB'', [(''Kenya'', ''MDR-TB'')]),
                (''Pre-XDR-TB'', []),
                (''XDR-TB'', [])]"
    by code_simp
  have ex: "\<exists>fig. fst (script example_lookup example_geocode example_table) = Inr fig
         \<and> map (\<lambda>tr. (trace_name tr, map (\<lambda>d. (fst d, fst (snd d))) (customdata tr))) fig
             = [(''Sensitive'', [(''Kenya'', ''Sensitive'')]),
                (''Other'', [(''Georgia'', ''Other'')]),
                (''HR-TB'', [(''Chad'', ''HR-TB'')]),
                (''RR-TB'', [(''Uganda'', ''RR-TB'')]),
                (''MDR-TB'', [(''Kenya'', ''MDR-TB'')]),
                (''Pre-XDR-TB'', []),
                (''XDR-TB'', [])]"
    using example_figure fig by (intro exI[of _ "make_figure example_plotted_rows"] conjI)
  have em: "counts_iso example_lookup (dropna []) = []" by code_simp
  from t[of example_lookup "[]" example_geocode "[]"] em
  have fail: "fst (script example_lookup example_geocode []) = Inl ValueError" by blast
  from ne mem ty pl out ex em fail show ?thesis by simp
qed

lemma column_max_props:
  assumes "column_max ps = Some M"
  shows "M \<in> set ps \<and> (\<forall>p \<in> set ps. p \<le> M)"
proof -
  from assms obtain p qs where ps: "ps = p # qs" and M: "M = fold max qs p"
    by (auto simp: column_max_def split: list.splits)
  have "M = Max (set ps)" by (simp only: ps M Max.set_eq_fold)
  moreover have "finite (set ps)" "set ps \<noteq> {}" by (simp_all add: ps)
  ultimately show ?thesis by (auto intro: Max_in Max_ge)
qed

text \<open>
  Claim C9. On an aggregate with no row the script raises at line 71 and builds no
  figure. On every other input the figure has seven traces and all of them carry the
  same \<open>sizeref\<close>, \<open>2 * M / 40\<^sup>2\<close>, where \<open>M\<close> is the largest percentage among the
  plotted rows of all seven series: \<open>M\<close> is the percentage of a plotted row and no
  plotted row has a larger one. When the aggregate has rows but the seven-type filter
  leaves none, \<open>M\<close> and the \<open>sizeref\<close> are NaN.
\<close>

theorem shared_sizeref:
  "(counts_iso lookup (dropna table) = [] \<longrightarrow>
      fst (script lookup geocode table) = Inl ValueError)
   \<and> (counts_iso lookup (dropna table) \<noteq> [] \<longrightarrow>
        (\<exists>rows fig.
           plotted_rows lookup geocode table = Inr rows
           \<and> fst (script lookup geocode table) = Inr fig
           \<and> length fig = 7
           \<and> (\<forall>tr \<in> set fig.
                 marker_sizeref tr
                   = (case column_max (map percent rows) of
                        None \<Rightarrow> None
                      | Some M \<Rightarrow> Some (2 * M / 40\<^sup>2)))
           \<and> (column_max (map percent rows) = None \<longleftrightarrow> rows = [])
           \<and> (\<forall>M. column_max (map percent rows) = Some M \<longrightarrow>
                  M \<in> percent ` set rows \<and> (\<forall>m \<in> set rows. percent m \<le> M))))"
proof (intro conjI impI)
  assume "counts_iso lookup (dropna table) = []"
  then show "fst (script lookup geocode table) = Inl ValueError"
    by (rule script_fst_Inl)
next
  assume ne: "counts_iso lookup (dropna table) \<noteq> []"
  then obtain rows where rows: "plotted_rows lookup geocode table = Inr rows"
    by (simp add: plotted_rows_eq)
  let ?fig = "make_figure rows"
  have 1: "fst (script lookup geocode table) = Inr ?fig"
    by (simp add: script_fst rows)
  have 2: "length ?fig = 7"
    by (simp add: make_figure_def Let_def selected_types_def)
  have 3: "\<forall>tr \<in> set ?fig.
         marker_sizeref tr
           = (case column_max (map percent rows) of
                None \<Rightarrow> None
              | Some M \<Rightarrow> Some (2 * M / 40\<^sup>2))"
    by (auto simp: make_figure_mem sizeref_of_def split: option.splits)
  have 4: "column_max (map percent rows) = None \<longleftrightarrow> rows = []"
    by (auto simp: column_max_def split: list.splits)
  have 5: "\<forall>M. column_max (map percent rows) = Some M \<longrightarrow>
          M \<in> percent ` set rows \<and> (\<forall>m \<in> set rows. percent m \<le> M)"
    using column_max_props[of "map percent rows"] by auto
  from rows 1 2 3 4 5
  show "\<exists>rows fig.
           plotted_rows lookup geocode table = Inr rows
           \<and> fst (script lookup geocode table) = Inr fig
           \<and> length fig = 7
           \<and> (\<forall>tr \<in> set fig.
                 marker_sizeref tr
                   = (case column_max (map percent rows) of
                        None \<Rightarrow> None
                      | Some M \<Rightarrow> Some (2 * M / 40\<^sup>2)))
           \<and> (column_max (map percent rows) = None \<longleftrightarrow> rows = [])
           \<and> (\<forall>M. column_max (map percent rows) = Some M \<longrightarrow>
                  M \<in> percent ` set rows \<and> (\<forall>m \<in> set rows. percent m \<le> M))"
    by (intro exI[of _ rows] exI[of _ ?fig] conjI)
qed

theorem shared_sizeref_witness:
  "counts_iso example_lookup (dropna example_table) \<noteq> []
   \<and> plotted_rows example_lookup example_geocode example_table = Inr example_plotted_rows
   \<and> column_max (map percent example_plotted_rows) = Some 100
   \<and> 100 \<in> percent ` set example_plotted_rows
   \<and> (\<exists>fig. fst (script example_lookup example_geocode example_table) = Inr fig
         \<and> map marker_sizeref fig = replicate 7 (Some (2 * 100 / 40\<^sup>2)))
   \<and> counts_iso example_lookup (dropna []) = []
   \<and> fst (script example_lookup example_geocode []) = Inl ValueError"
proof -
  note t = shared_sizeref
  have ne: "counts_iso example_lookup (dropna example_table) \<noteq> []"
    by (rule example_counts_nonempty)
  have m: "column_max (map percent example_plotted_rows) = Some 100"
    by code_simp
  from t[of example_lookup example_table example_geocode] ne
  obtain rows fig where r: "plotted_rows example_lookup example_geocode example_table = Inr rows"
    and f: "fst (script example_lookup example_geocode example_table) = Inr fig"
    and l: "length fig = 7"
    and s: "\<forall>tr \<in> set fig.
                 marker_sizeref tr
                   = (case column_max (map percent rows) of
                        None \<Rightarrow> None
                      | Some M \<Rightarrow> Some (2 * M / 40\<^sup>2))"
    and x: "\<forall>M. column_max (map percent rows) = Some M \<longrightarrow>
                  M \<in> percent ` set rows \<and> (\<forall>m \<in> set rows. percent m \<le> M)"
    by blast
  from r have rows: "rows = example_plotted_rows" by (simp add: example_plotted)
  from x m have b: "100 \<in> percent ` set example_plotted_rows" by (simp add: rows)
  from s m have a: "\<forall>tr \<in> set fig. marker_sizeref tr = Some (2 * 100 / 40\<^sup>2)"
    by (simp add: rows)
  then have "map marker_sizeref fig = map (\<lambda>tr. Some (2 * 100 / 40\<^sup>2)) fig"
    by (intro map_cong refl) simp
  also have "\<dots> = replicate (length fig) (Some (2 * 100 / 40\<^sup>2))"
    by (rule map_replicate_const)
  finally have "map marker_sizeref fig = replicate 7 (Some (2 * 100 / 40\<^sup>2))"
    by (simp only: l)
  with f have ex: "\<exists>fig. fst (script example_lookup example_geocode example_table) = Inr fig
         \<and> map marker_sizeref fig = replicate 7 (Some (2 * 100 / 40\<^sup>2))"
    by blast
  have em: "counts_iso example_lookup (dropna []) = []" by code_simp
  from t[of example_lookup "[]" example_geocode] em
  have fail: "fst (script example_lookup example_geocode []) = Inl ValueError" by blast
  from ne example_plotted m b ex em fail show ?thesis by (intro conjI)
qed

subsection \<open>Layout mapper\<close>

lemma jitter_values:
  "dict_get jitter_map ''Sensitive'' 0.0 = 0.0"
  "dict_get jitter_map ''RR-TB'' 0.0 = 0.2"
  "dict_get jitter_map ''MDR-TB'' 0.0 = 0.4"
  "dict_get jitter_map ''Pre-XDR-TB'' 0.0 = 0.6"
  "dict_get jitter_map ''HR-TB'' 0.0 = 0.8"
  "dict_get jitter_map ''XDR-TB'' 0.0 = 1.0"
  "dict_get jitter_map ''Other'' 0.0 = 1.2"
  by (simp_all add: dict_get_def jitter_map_def)

lemma jitter_default:
  "t \<notin> {''Sensitive'', ''RR-TB'', ''MDR-TB'', ''Pre-XDR-TB'', ''HR-TB'', ''XDR-TB'', ''Other''}
     \<Longrightarrow> dict_get jitter_map t 0.0 = 0.0"
  by (simp add: dict_get_def jitter_map_def)

lemma apply_coords_lat:
  "lat (apply_coords cc row)
     = lat (case cc (country row) of None \<Rightarrow> \<lparr>lat = 0.0, lon = 30.0\<rparr> | Some v \<Rightarrow> v)"
  by (simp add: apply_coords_def Let_def)

lemma apply_coords_lon:
  "lon (apply_coords cc row)
     = fadd (lon (case cc (country row) of None \<Rightarrow> \<lparr>lat = 0.0, lon = 30.0\<rparr> | Some v \<Rightarrow> v))
         (dict_get jitter_map (dr_type row) 0.0)"
  by (simp add: apply_coords_def Let_def)

text \<open>
  Claim C6. The jitter offset is a fixed function of the resistance-type label:
  Sensitive 0.0, RR-TB 0.2, MDR-TB 0.4, Pre-XDR-TB 0.6, HR-TB 0.8, XDR-TB 1.0,
  Other 1.2, and 0.0 for every other label; the longitude of a row is the float sum
  of the base longitude of its country (the cached coordinate, or the default) and the
  offset of its label.
\<close>

theorem jitter_fixed_and_additive:
  "dict_get jitter_map ''Sensitive'' 0.0 = 0.0
   \<and> dict_get jitter_map ''RR-TB'' 0.0 = 0.2
   \<and> dict_get jitter_map ''MDR-TB'' 0.0 = 0.4
   \<and> dict_get jitter_map ''Pre-XDR-TB'' 0.0 = 0.6
   \<and> dict_get jitter_map ''HR-TB'' 0.0 = 0.8
   \<and> dict_get jitter_map ''XDR-TB'' 0.0 = 1.0
   \<and> dict_get jitter_map ''Other'' 0.0 = 1.2
   \<and> (t \<notin> {''Sensitive'', ''RR-TB'', ''MDR-TB'', ''Pre-XDR-TB'', ''HR-TB'', ''XDR-TB'',
              ''Other''}
        \<longrightarrow> dict_get jitter_map t 0.0 = 0.0)
   \<and> lon (apply_coords cc row)
       = fadd (lon (case cc (country row) of None \<Rightarrow> \<lparr>lat = 0.0, lon = 30.0\<rparr> | Some v \<Rightarrow> v))
           (dict_get jitter_map (dr_type row) 0.0)
   \<and> point_lon (with_coords cc row) = lon (apply_coords cc row)"
proof (intro conjI impI)
  show "lon (apply_coords cc row)
       = fadd (lon (case cc (country row) of None \<Rightarrow> \<lparr>lat = 0.0, lon = 30.0\<rparr> | Some v \<Rightarrow> v))
           (dict_get jitter_map (dr_type row) 0.0)"
    by (rule apply_coords_lon)
  show "point_lon (with_coords cc row) = lon (apply_coords cc row)"
    by simp
qed (fact jitter_values jitter_default)+

theorem jitter_fixed_and_additive_witness:
  "''Unknown'' \<notin> {''Sensitive'', ''RR-TB'', ''MDR-TB'', ''Pre-XDR-TB'', ''HR-TB'', ''XDR-TB'',
                   ''Other''}
   \<and> dict_get jitter_map ''Unknown'' 0.0 = 0.0
   \<and> counts_coords (country_coords (geocode_all example_geocode example_counts)) example_counts
       = Inr example_unfiltered
   \<and> map (\<lambda>r. (country r, dr_type r, point_lon r)) example_unfiltered
       = [(''Chad'', ''HR-TB'', fadd 30.0 0.8),
          (''Georgia'', ''Other'', fadd 43.3569 1.2),
          (''Georgia'', ''Unknown'', fadd 43.3569 0.0),
          (''Kenya'', ''MDR-TB'', fadd 38 0.4),
          (''Kenya'', ''Sensitive'', fadd 38 0.0),
          (''Uganda'', ''RR-TB'', fadd 30.0 0.2)]"
proof -
  have h: "''Unknown'' \<notin> {''Sensitive'', ''RR-TB'', ''MDR-TB'', ''Pre-XDR-TB'', ''HR-TB'',
                             ''XDR-TB'', ''Other''}"
    by simp
  have e: "map (\<lambda>r. (country r, dr_type r, point_lon r)) example_unfiltered
       = [(''Chad'', ''HR-TB'', fadd 30.0 0.8),
          (''Georgia'', ''Other'', fadd 43.3569 1.2),
          (''Georgia'', ''Unknown'', fadd 43.3569 0.0),
          (''Kenya'', ''MDR-TB'', fadd 38 0.4),
          (''Kenya'', ''Sensitive'', fadd 38 0.0),
          (''Uganda'', ''RR-TB'', fadd 30.0 0.2)]"
    by code_simp
  from jitter_fixed_and_additive[of "''Unknown''"] h
  have "dict_get jitter_map ''Unknown'' 0.0 = 0.0" by (simp only: simp_thms)
  with h e example_coords show ?thesis by (intro conjI)
qed

lemma zip_map_same: "zip (map f xs) (map g xs) = map (\<lambda>x. (f x, g x)) xs"
  by (induction xs) simp_all

lemma trace_point:
  assumes "m \<in> set rows"
  shows "(point_lon m, point_lat m)
           \<in> set (zip (trace_lon (make_trace M rows (dr_type m)))
                       (trace_lat (make_trace M rows (dr_type m))))"
proof -
  from assms have "m \<in> set (filter (\<lambda>r. dr_type r = dr_type m) rows)" by simp
  then have "(point_lon m, point_lat m)
               \<in> (\<lambda>x. (point_lon x, point_lat x)) ` set (filter (\<lambda>r. dr_type r = dr_type m) rows)"
    by (rule imageI)
  then show ?thesis by (simp add: zip_map_same)
qed

text \<open>
  Claim C5. A row whose country has no entry in the coordinate cache \<open>cc\<close> is kept
  by the coordinate stage (the stage does not fail and maps the table row by row) and
  gets latitude 0.0 and, as longitude, the float sum of 30.0 and the jitter offset of
  its label; when its label is one of the seven displayed ones, it is a plotted row
  and the trace of its label has a point at these coordinates.
\<close>

theorem default_coordinates:
  assumes "r \<in> set cs" and "cc (country r) = None"
  shows "\<exists>rows. counts_coords cc cs = Inr rows
    \<and> length rows = length cs
    \<and> with_coords cc r \<in> set rows
    \<and> point_lat (with_coords cc r) = 0.0
    \<and> point_lon (with_coords cc r) = fadd 30.0 (dict_get jitter_map (dr_type r) 0.0)
    \<and> (dr_type r \<in> set selected_types \<longrightarrow>
          with_coords cc r \<in> set (counts_selected rows) \<and>
          (\<exists>tr \<in> set (make_figure (counts_selected rows)).
             trace_name tr = dr_type r \<and>
             (fadd 30.0 (dict_get jitter_map (dr_type r) 0.0), 0.0)
               \<in> set (zip (trace_lon tr) (trace_lat tr))))"
proof (intro exI[of _ "map (with_coords cc) cs"] conjI impI)
  let ?all = "map (with_coords cc) cs"
  from assms(1) have "cs \<noteq> []" by auto
  then show "counts_coords cc cs = Inr ?all" by (rule counts_coords_Inr)
  show "length ?all = length cs" by simp
  from assms(1) show mem: "with_coords cc r \<in> set ?all" by simp
  from assms(2) show la: "point_lat (with_coords cc r) = 0.0"
    by (simp add: apply_coords_lat)
  from assms(2)
  show lo: "point_lon (with_coords cc r) = fadd 30.0 (dict_get jitter_map (dr_type r) 0.0)"
    by (simp add: apply_coords_lon)
  assume sel: "dr_type r \<in> set selected_types"
  with mem show kept: "with_coords cc r \<in> set (counts_selected ?all)"
    by (simp add: counts_selected_def)
  let ?rows = "counts_selected ?all"
  let ?tr = "make_trace (column_max (map percent ?rows)) ?rows (dr_type r)"
  from sel have "?tr \<in> set (make_figure ?rows)"
    by (auto simp: make_figure_mem)
  moreover have "trace_name ?tr = dr_type r" by simp
  moreover have "(point_lon (with_coords cc r), point_lat (with_coords cc r))
                   \<in> set (zip (trace_lon ?tr) (trace_lat ?tr))"
    using trace_point[OF kept] by simp
  ultimately show "\<exists>tr \<in> set (make_figure ?rows).
             trace_name tr = dr_type r \<and>
             (fadd 30.0 (dict_get jitter_map (dr_type r) 0.0), 0.0)
               \<in> set (zip (trace_lon tr) (trace_lat tr))"
    unfolding la lo by (intro bexI[of _ ?tr] conjI)
qed

theorem default_coordinates_witness:
  "\<lparr>country = ''Chad'', dr_type = ''HR-TB'', count = 1, total_samples = 1, percent = 100,
     iso_alpha = ''TCD''\<rparr> \<in> set example_counts
   \<and> example_geocode ''Chad'' = Returns None
   \<and> country_coords (geocode_all example_geocode example_counts) ''Chad'' = None
   \<and> chad_hr \<in> set example_plotted_rows
   \<and> plotted_rows example_lookup example_geocode example_table = Inr example_plotted_rows
   \<and> point_lat chad_hr = 0.0
   \<and> point_lon chad_hr = fadd 30.0 0.8
   \<and> (\<exists>tr \<in> set (make_figure example_plotted_rows).
         trace_name tr = ''HR-TB'' \<and>
         (fadd 30.0 0.8, 0.0) \<in> set (zip (trace_lon tr) (trace_lat tr)))
   \<and> fst (script example_lookup example_geocode example_table)
       = Inr (make_figure example_plotted_rows)"
proof -
  let ?r = "\<lparr>country = ''Chad'', dr_type = ''HR-TB'', count = 1, total_samples = 1,
              percent = 100, iso_alpha = ''TCD''\<rparr>"
  let ?cc = "country_coords (geocode_all example_geocode example_counts)"
  have h1: "?r \<in> set example_counts" by code_simp
  have g: "example_geocode ''Chad'' = Returns None" by (simp add: example_geocode_def)
  have n: "?cc ''Chad'' = None" by code_simp
  then have h2: "?cc (country ?r) = None" by simp
  have sel: "dr_type ?r \<in> set selected_types" by (simp add: selected_types_def)
  have j: "dict_get jitter_map (dr_type ?r) 0.0 = 0.8"
    by (simp add: dict_get_def jitter_map_def)
  have w: "with_coords ?cc ?r = chad_hr" by code_simp
  from default_coordinates[of ?r example_counts ?cc, OF h1 h2]
  obtain rows where c: "counts_coords ?cc example_counts = Inr rows"
    and la: "point_lat (with_coords ?cc ?r) = 0.0"
    and lo: "point_lon (with_coords ?cc ?r) = fadd 30.0 (dict_get jitter_map (dr_type ?r) 0.0)"
    and k: "dr_type ?r \<in> set selected_types \<longrightarrow>
          with_coords ?cc ?r \<in> set (counts_selected rows) \<and>
          (\<exists>tr \<in> set (make_figure (counts_selected rows)).
             trace_name tr = dr_type ?r \<and>
             (fadd 30.0 (dict_get jitter_map (dr_type ?r) 0.0), 0.0)
               \<in> set (zip (trace_lon tr) (trace_lat tr)))"
    by blast
  from c have rows: "rows = example_unfiltered" by (simp add: example_coords)
  from k sel have
    "chad_hr \<in> set example_plotted_rows"
    and "\<exists>tr \<in> set (make_figure example_plotted_rows).
             trace_name tr = dr_type ?r \<and>
             (fadd 30.0 (dict_get jitter_map (dr_type ?r) 0.0), 0.0)
               \<in> set (zip (trace_lon tr) (trace_lat tr))"
    unfolding rows example_selected w by (simp_all only: simp_thms)
  then have m: "chad_hr \<in> set example_plotted_rows"
    and t: "\<exists>tr \<in> set (make_figure example_plotted_rows).
         trace_name tr = ''HR-TB'' \<and>
         (fadd 30.0 0.8, 0.0) \<in> set (zip (trace_lon tr) (trace_lat tr))"
    unfolding j by simp_all
  from la lo have "point_lat chad_hr = 0.0" "point_lon chad_hr = fadd 30.0 0.8"
    unfolding w j by simp_all
  with h1 g n m t example_plotted example_figure show ?thesis by (intro conjI)
qed

subsection \<open>Geocoder\<close>

lemma set_unique: "set (unique xs) = set xs"
  by (induction xs rule: unique.induct) auto

lemma distinct_unique: "distinct (unique xs)"
  by (induction xs rule: unique.induct) (auto simp: set_unique)

lemma coord_eta: "\<lparr>lat = lat loc, lon = lon loc\<rparr> = (loc :: coord)"
  by (cases loc) simp

lemma geocode_step_events:
  "events (geocode_step geocode st c)
     = events st @ (if c = ''Georgia'' \<or> c = ''Sudan'' then [] else [Geocode c, Sleep 1])"
  by (simp add: geocode_step_def Let_def split: outcome.splits option.splits)

lemma geocode_step_coords:
  "country_coords (geocode_step geocode st c)
     = (if c = ''Georgia'' then (country_coords st)(c \<mapsto> \<lparr>lat = 42.3154, lon = 43.3569\<rparr>)
        else if c = ''Sudan'' then (country_coords st)(c \<mapsto> \<lparr>lat = 12.8628, lon = 30.2176\<rparr>)
        else (case geocode c of
                Raises \<Rightarrow> country_coords st
              | Returns None \<Rightarrow> country_coords st
              | Returns (Some loc) \<Rightarrow> (country_coords st)(c \<mapsto> loc)))"
  by (simp add: geocode_step_def Let_def coord_eta split: outcome.splits option.splits)

lemma foldl_events:
  "events (foldl (geocode_step geocode) st cs)
     = events st
       @ concat (map (\<lambda>c. if c = ''Georgia'' \<or> c = ''Sudan'' then [] else [Geocode c, Sleep 1]) cs)"
  by (induction cs arbitrary: st) (simp_all add: geocode_step_events)

lemma foldl_coords_other:
  "c \<notin> set cs \<Longrightarrow>
     country_coords (foldl (geocode_step geocode) st cs) c = country_coords st c"
  by (induction cs arbitrary: st)
     (auto simp: geocode_step_coords split: outcome.splits option.splits)

lemma foldl_coords_in:
  "c \<in> set cs \<Longrightarrow> distinct cs \<Longrightarrow>
     country_coords (foldl (geocode_step geocode) st cs) c
       = country_coords (geocode_step geocode st c) c"
proof (induction cs arbitrary: st)
  case Nil
  then show ?case by simp
next
  case (Cons a cs)
  show ?case
  proof (cases "a = c")
    case True
    with Cons.prems have "c \<notin> set cs" by simp
    with True show ?thesis by (simp add: foldl_coords_other)
  next
    case False
    with Cons.prems have "c \<in> set cs" "distinct cs" by simp_all
    from Cons.IH[OF this]
    have "country_coords (foldl (geocode_step geocode) (geocode_step geocode st a) cs) c
            = country_coords (geocode_step geocode (geocode_step geocode st a) c) c" .
    also have "\<dots> = country_coords (geocode_step geocode st c) c"
      using False
      by (auto simp: geocode_step_coords split: outcome.splits option.splits)
    finally show ?thesis by simp
  qed
qed

lemma count_lookups:
  "distinct cs \<Longrightarrow>
   count_list
     (concat (map (\<lambda>c. if c = ''Georgia'' \<or> c = ''Sudan'' then [] else [Geocode c, Sleep 1]) cs))
     (Geocode c)
   = (if c \<in> set cs \<and> c \<noteq> ''Georgia'' \<and> c \<noteq> ''Sudan'' then 1 else 0)"
  by (induction cs) auto


lemma sleep_follows_lookup:
  "i < length (concat (map (\<lambda>c. if c = ''Georgia'' \<or> c = ''Sudan'' then [] else [Geocode c, Sleep 1]) cs)) \<Longrightarrow>
   concat (map (\<lambda>c. if c = ''Georgia'' \<or> c = ''Sudan'' then [] else [Geocode c, Sleep 1]) cs) ! i = Geocode c \<Longrightarrow>
   Suc i < length (concat (map (\<lambda>c. if c = ''Georgia'' \<or> c = ''Sudan'' then [] else [Geocode c, Sleep 1]) cs)) \<and>
   concat (map (\<lambda>c. if c = ''Georgia'' \<or> c = ''Sudan'' then [] else [Geocode c, Sleep 1]) cs) ! Suc i = Sleep 1"
proof (induction cs arbitrary: i)
  case Nil
  then show ?case by simp
next
  case (Cons a cs)
  let ?f = "\<lambda>c. if c = ''Georgia'' \<or> c = ''Sudan'' then [] else [Geocode c, Sleep 1]"
  show ?case
  proof (cases "a = ''Georgia'' \<or> a = ''Sudan''")
    case True
    with Cons show ?thesis by auto
  next
    case False
    then have e: "concat (map ?f (a # cs)) = Geocode a # Sleep 1 # concat (map ?f cs)"
      by simp
    show ?thesis
    proof (cases i)
      case 0
      then show ?thesis unfolding e by simp
    next
      case (Suc j)
      show ?thesis
      proof (cases j)
        case 0
        with Suc Cons.prems(2) show ?thesis unfolding e by simp
      next
        case (Suc k)
        with \<open>i = Suc j\<close> Cons.prems have "k < length (concat (map ?f cs))"
          and "concat (map ?f cs) ! k = Geocode c"
          unfolding e by simp_all
        from Cons.IH[OF this] show ?thesis
          unfolding e \<open>i = Suc j\<close> Suc by simp
      qed
    qed
  qed
qed

lemma lookups_per_country:
  assumes "c \<in> country ` set counts"
  shows "count_list (events (geocode_all geocode counts)) (Geocode c)
           = (if c = ''Georgia'' \<or> c = ''Sudan'' then 0 else 1)"
proof -
  from assms have "c \<in> set (unique (map country counts))" by (simp add: set_unique)
  then show ?thesis
    by (simp add: geocode_all_def geocode_loop_def foldl_events
        count_lookups[OF distinct_unique])
qed

text \<open>
  Claim C8. The loop runs once over each distinct country name of the aggregate. Its
  event log is, country by country, nothing for the overrides Georgia and Sudan and one
  external lookup followed by a one-second sleep for every other name, whatever the
  lookup does; every lookup in the log is directly followed by the sleep. An override
  gets its fixed coordinate pair and is never looked up. Any other name is looked up
  exactly once and is cached exactly when the lookup returns a location: a raised
  error or an empty result leaves the name without a cached coordinate.
\<close>

theorem geocoding_loop_behaviour:
  "snd (script lookup geocode table)
     = concat (map (\<lambda>c. if c = ''Georgia'' \<or> c = ''Sudan'' then [] else [Geocode c, Sleep 1])
         (unique (map country (counts_iso lookup (dropna table)))))
   \<and> distinct (unique (map country (counts_iso lookup (dropna table))))
   \<and> (\<forall>i c. i < length (snd (script lookup geocode table)) \<and>
              snd (script lookup geocode table) ! i = Geocode c \<longrightarrow>
          Suc i < length (snd (script lookup geocode table)) \<and>
          snd (script lookup geocode table) ! Suc i = Sleep 1)
   \<and> (\<forall>c \<in> country ` set (counts_iso lookup (dropna table)).
        (c = ''Georgia'' \<longrightarrow>
           country_coords (geocode_all geocode (counts_iso lookup (dropna table))) c
             = Some \<lparr>lat = 42.3154, lon = 43.3569\<rparr>
           \<and> count_list (snd (script lookup geocode table)) (Geocode c) = 0)
      \<and> (c = ''Sudan'' \<longrightarrow>
           country_coords (geocode_all geocode (counts_iso lookup (dropna table))) c
             = Some \<lparr>lat = 12.8628, lon = 30.2176\<rparr>
           \<and> count_list (snd (script lookup geocode table)) (Geocode c) = 0)
      \<and> (c \<noteq> ''Georgia'' \<and> c \<noteq> ''Sudan'' \<longrightarrow>
           count_list (snd (script lookup geocode table)) (Geocode c) = 1
           \<and> country_coords (geocode_all geocode (counts_iso lookup (dropna table))) c
               = (case geocode c of
                    Raises \<Rightarrow> None
                  | Returns None \<Rightarrow> None
                  | Returns (Some loc) \<Rightarrow> Some loc)))"
proof (intro conjI ballI allI)
  let ?cs = "unique (map country (counts_iso lookup (dropna table)))"
  let ?st = "geocode_all geocode (counts_iso lookup (dropna table))"
  let ?init = "\<lparr>country_coords = Map.empty, events = []\<rparr>"
  show ev: "snd (script lookup geocode table)
     = concat (map (\<lambda>c. if c = ''Georgia'' \<or> c = ''Sudan'' then [] else [Geocode c, Sleep 1]) ?cs)"
    by (simp add: script_def geocode_all_def geocode_loop_def foldl_events)
  show d: "distinct ?cs" by (rule distinct_unique)
  show "i < length (snd (script lookup geocode table)) \<and>
              snd (script lookup geocode table) ! i = Geocode c \<longrightarrow>
          Suc i < length (snd (script lookup geocode table)) \<and>
          snd (script lookup geocode table) ! Suc i = Sleep 1" for i c
    unfolding ev using sleep_follows_lookup[of i ?cs c] by blast
  fix c assume "c \<in> country ` set (counts_iso lookup (dropna table))"
  then have c: "c \<in> set ?cs" by (simp add: set_unique)
  have cnt: "count_list (snd (script lookup geocode table)) (Geocode c)
               = (if c \<noteq> ''Georgia'' \<and> c \<noteq> ''Sudan'' then 1 else 0)"
    unfolding ev using c by (simp add: count_lookups[OF d])
  have co: "country_coords ?st c = country_coords (geocode_step geocode ?init c) c"
    unfolding geocode_all_def geocode_loop_def by (rule foldl_coords_in[OF c d])
  show "c = ''Georgia'' \<longrightarrow>
           country_coords ?st c = Some \<lparr>lat = 42.3154, lon = 43.3569\<rparr>
           \<and> count_list (snd (script lookup geocode table)) (Geocode c) = 0"
    using cnt co by (intro impI) (simp add: geocode_step_coords)
  show "c = ''Sudan'' \<longrightarrow>
           country_coords ?st c = Some \<lparr>lat = 12.8628, lon = 30.2176\<rparr>
           \<and> count_list (snd (script lookup geocode table)) (Geocode c) = 0"
    using cnt co by (intro impI) (simp add: geocode_step_coords)
  show "c \<noteq> ''Georgia'' \<and> c \<noteq> ''Sudan'' \<longrightarrow>
           count_list (snd (script lookup geocode table)) (Geocode c) = 1
           \<and> country_coords ?st c
               = (case geocode c of
                    Raises \<Rightarrow> None
                  | Returns None \<Rightarrow> None
                  | Returns (Some loc) \<Rightarrow> Some loc)"
    using cnt co
    by (intro impI) (simp add: geocode_step_coords split: outcome.splits option.splits)
qed

theorem geocoding_loop_behaviour_witness:
  "snd (script example_lookup example_geocode example_table)
     = [Geocode ''Chad'', Sleep 1, Geocode ''Kenya'', Sleep 1, Geocode ''Uganda'', Sleep 1]
   \<and> unique (map country example_counts) = [''Chad'', ''Georgia'', ''Kenya'', ''Uganda'']
   \<and> example_geocode ''Uganda'' = Raises
   \<and> count_list (snd (script example_lookup example_geocode example_table)) (Geocode ''Uganda'') = 1
   \<and> country_coords (geocode_all example_geocode example_counts) ''Uganda'' = None
   \<and> example_geocode ''Kenya'' = Returns (Some \<lparr>lat = 1.5, lon = 38\<rparr>)
   \<and> country_coords (geocode_all example_geocode example_counts) ''Kenya''
       = Some \<lparr>lat = 1.5, lon = 38\<rparr>
   \<and> country_coords (geocode_all example_geocode example_counts) ''Georgia''
       = Some \<lparr>lat = 42.3154, lon = 43.3569\<rparr>
   \<and> count_list (snd (script example_lookup example_geocode example_table)) (Geocode ''Georgia'') = 0"
proof -
  have cs: "unique (map country example_counts) = [''Chad'', ''Georgia'', ''Kenya'', ''Uganda'']"
    by code_simp
  have ug: "example_geocode ''Uganda'' = Raises" by (simp add: example_geocode_def)
  have ke: "example_geocode ''Kenya'' = Returns (Some \<lparr>lat = 1.5, lon = 38\<rparr>)"
    by (simp add: example_geocode_def)
  note b = geocoding_loop_behaviour[of example_lookup example_geocode example_table,
             folded example_counts_def]
  from b have ev: "snd (script example_lookup example_geocode example_table)
     = [Geocode ''Chad'', Sleep 1, Geocode ''Kenya'', Sleep 1, Geocode ''Uganda'', Sleep 1]"
    by (simp add: cs)
  have mem: "''Uganda'' \<in> country ` set example_counts" "''Kenya'' \<in> country ` set example_counts"
    "''Georgia'' \<in> country ` set example_counts"
    unfolding set_unique[of "map country example_counts", simplified, symmetric] cs by simp_all
  from b have all: "\<forall>c \<in> country ` set example_counts.
        (c = ''Georgia'' \<longrightarrow>
           country_coords (geocode_all example_geocode example_counts) c
             = Some \<lparr>lat = 42.3154, lon = 43.3569\<rparr>
           \<and> count_list (snd (script example_lookup example_geocode example_table)) (Geocode c) = 0)
      \<and> (c = ''Sudan'' \<longrightarrow>
           country_coords (geocode_all example_geocode example_counts) c
             = Some \<lparr>lat = 12.8628, lon = 30.2176\<rparr>
           \<and> count_list (snd (script example_lookup example_geocode example_table)) (Geocode c) = 0)
      \<and> (c \<noteq> ''Georgia'' \<and> c \<noteq> ''Sudan'' \<longrightarrow>
           count_list (snd (script example_lookup example_geocode example_table)) (Geocode c) = 1
           \<and> country_coords (geocode_all example_geocode example_counts) c
               = (case example_geocode c of
                    Raises \<Rightarrow> None
                  | Returns None \<Rightarrow> None
                  | Returns (Some loc) \<Rightarrow> Some loc))"
    by (elim conjE)
  from bspec[OF all mem(1)] ug
  have u: "count_list (snd (script example_lookup example_geocode example_table)) (Geocode ''Uganda'') = 1"
    "country_coords (geocode_all example_geocode example_counts) ''Uganda'' = None"
    by simp_all
  from bspec[OF all mem(2)] ke
  have k: "country_coords (geocode_all example_geocode example_counts) ''Kenya''
       = Some \<lparr>lat = 1.5, lon = 38\<rparr>"
    by simp
  from bspec[OF all mem(3)]
  have g: "country_coords (geocode_all example_geocode example_counts) ''Georgia''
       = Some \<lparr>lat = 42.3154, lon = 43.3569\<rparr>"
    "count_list (snd (script example_lookup example_geocode example_table)) (Geocode ''Georgia'') = 0"
    by simp_all
  from ev cs ug u ke k g show ?thesis by (intro conjI)
qed

subsection \<open>Shared base coordinate\<close>

text \<open>
  Claim C10, as amended. Two plotted rows of the same country have the same latitude,
  and each longitude is the float sum of one base longitude, the entry of the country
  in the coordinate cache or the default, and the jitter offset of the row's own
  label: the jitter enters the longitude only. The longitudes therefore differ by the
  difference of the two offsets up to the rounding of the two additions, each at most
  \<open>2 ^ 53\<close> times smaller than its sum, and not exactly. The cache entry comes from
  the one pass of the loop over the country's name: the name is looked up once, or not
  at all when it is an override.
\<close>

theorem same_country_shared_base:
  "(counts_iso lookup (dropna table) \<noteq> [] \<longrightarrow>
      (\<exists>rows. plotted_rows lookup geocode table = Inr rows))
   \<and> (\<forall>rows. plotted_rows lookup geocode table = Inr rows \<longrightarrow>
        (\<forall>p \<in> set rows. \<forall>q \<in> set rows.
           country p = country q \<longrightarrow>
             point_lat p = point_lat q
             \<and> (\<exists>base.
                   base = (case country_coords
                                  (geocode_all geocode (counts_iso lookup (dropna table)))
                                  (country p) of
                             None \<Rightarrow> \<lparr>lat = 0.0, lon = 30.0\<rparr>
                           | Some v \<Rightarrow> v)
                   \<and> point_lat p = lat base \<and> point_lat q = lat base
                   \<and> point_lon p = fadd (lon base) (dict_get jitter_map (dr_type p) 0.0)
                   \<and> point_lon q = fadd (lon base) (dict_get jitter_map (dr_type q) 0.0)
                   \<and> \<bar>(point_lon p - point_lon q)
                        - (round64 (dict_get jitter_map (dr_type p) 0.0)
                           - round64 (dict_get jitter_map (dr_type q) 0.0))\<bar>
                       \<le> (\<bar>round64 (lon base) + round64 (dict_get jitter_map (dr_type p) 0.0)\<bar>
                           + \<bar>round64 (lon base)
                                + round64 (dict_get jitter_map (dr_type q) 0.0)\<bar>) / 2 ^ 53)
             \<and> count_list (snd (script lookup geocode table)) (Geocode (country p))
                 = (if country p = ''Georgia'' \<or> country p = ''Sudan'' then 0 else 1)))"
proof (intro conjI impI allI ballI)
  assume "counts_iso lookup (dropna table) \<noteq> []"
  then show "\<exists>rows. plotted_rows lookup geocode table = Inr rows"
    by (simp add: plotted_rows_eq)
next
  fix rows p q
  assume rows: "plotted_rows lookup geocode table = Inr rows"
    and p: "p \<in> set rows" and q: "q \<in> set rows" and c: "country p = country q"
  let ?counts = "counts_iso lookup (dropna table)"
  let ?cc = "country_coords (geocode_all geocode ?counts)"
  let ?base = "case ?cc (country p) of None \<Rightarrow> \<lparr>lat = 0.0, lon = 30.0\<rparr> | Some v \<Rightarrow> v"
  let ?jp = "dict_get jitter_map (dr_type p) 0.0"
  let ?jq = "dict_get jitter_map (dr_type q) 0.0"
  from p obtain r where r: "r \<in> set ?counts" "p = with_coords ?cc r"
    by (auto simp: plotted_rows_mem[OF rows])
  from q obtain s where s: "q = with_coords ?cc s"
    by (auto simp: plotted_rows_mem[OF rows])
  from c have rs: "country s = country r" by (simp add: r s)
  have lp: "point_lat p = lat ?base" by (simp add: r apply_coords_lat)
  have lq: "point_lat q = lat ?base" by (simp add: r s rs apply_coords_lat)
  have op: "point_lon p = fadd (lon ?base) ?jp"
    by (simp add: r apply_coords_lon)
  have oq: "point_lon q = fadd (lon ?base) ?jq"
    by (simp add: r s rs apply_coords_lon)
  from lp lq show "point_lat p = point_lat q" by simp
  have ep: "\<bar>fadd (lon ?base) ?jp - (round64 (lon ?base) + round64 ?jp)\<bar>
              \<le> \<bar>round64 (lon ?base) + round64 ?jp\<bar> / 2 ^ 53"
    by (rule fadd_error)
  have eq: "\<bar>fadd (lon ?base) ?jq - (round64 (lon ?base) + round64 ?jq)\<bar>
              \<le> \<bar>round64 (lon ?base) + round64 ?jq\<bar> / 2 ^ 53"
    by (rule fadd_error)
  have "\<bar>(point_lon p - point_lon q) - (round64 ?jp - round64 ?jq)\<bar>
          = \<bar>(fadd (lon ?base) ?jp - (round64 (lon ?base) + round64 ?jp))
             - (fadd (lon ?base) ?jq - (round64 (lon ?base) + round64 ?jq))\<bar>"
    by (simp only: op oq)
  also have "\<dots> \<le> \<bar>fadd (lon ?base) ?jp - (round64 (lon ?base) + round64 ?jp)\<bar>
                  + \<bar>fadd (lon ?base) ?jq - (round64 (lon ?base) + round64 ?jq)\<bar>"
    by (rule abs_triangle_ineq4)
  also have "\<dots> \<le> \<bar>round64 (lon ?base) + round64 ?jp\<bar> / 2 ^ 53
                  + \<bar>round64 (lon ?base) + round64 ?jq\<bar> / 2 ^ 53"
    by (rule add_mono[OF ep eq])
  finally have bound: "\<bar>(point_lon p - point_lon q) - (round64 ?jp - round64 ?jq)\<bar>
       \<le> (\<bar>round64 (lon ?base) + round64 ?jp\<bar> + \<bar>round64 (lon ?base) + round64 ?jq\<bar>) / 2 ^ 53"
    by (simp add: add_divide_distrib)
  from lp lq op oq bound
  show "\<exists>base.
          base = ?base
          \<and> point_lat p = lat base \<and> point_lat q = lat base
          \<and> point_lon p = fadd (lon base) ?jp
          \<and> point_lon q = fadd (lon base) ?jq
          \<and> \<bar>(point_lon p - point_lon q) - (round64 ?jp - round64 ?jq)\<bar>
              \<le> (\<bar>round64 (lon base) + round64 ?jp\<bar> + \<bar>round64 (lon base) + round64 ?jq\<bar>)
                  / 2 ^ 53"
    by (intro exI[of _ ?base] conjI refl)
  from r have "country p \<in> country ` set ?counts" by auto
  from lookups_per_country[OF this, of geocode]
  show "count_list (snd (script lookup geocode table)) (Geocode (country p))
          = (if country p = ''Georgia'' \<or> country p = ''Sudan'' then 0 else 1)"
    by (simp add: script_def)
qed

theorem same_country_shared_base_witness:
  "plotted_rows example_lookup example_geocode example_table = Inr example_plotted_rows
   \<and> kenya_mdr \<in> set example_plotted_rows
   \<and> kenya_sensitive \<in> set example_plotted_rows
   \<and> country kenya_mdr = country kenya_sensitive
   \<and> point_lat kenya_mdr = point_lat kenya_sensitive
   \<and> country_coords (geocode_all example_geocode example_counts) ''Kenya''
       = Some \<lparr>lat = 1.5, lon = 38\<rparr>
   \<and> point_lon kenya_mdr = fadd 38 0.4
   \<and> point_lon kenya_sensitive = fadd 38 0.0
   \<and> \<bar>(point_lon kenya_mdr - point_lon kenya_sensitive) - (round64 0.4 - round64 0.0)\<bar>
       \<le> (\<bar>round64 38 + round64 0.4\<bar> + \<bar>round64 38 + round64 0.0\<bar>) / 2 ^ 53
   \<and> count_list (snd (script example_lookup example_geocode example_table)) (Geocode ''Kenya'')
       = 1"
proof -
  have p: "kenya_mdr \<in> set example_plotted_rows" by (simp add: example_plotted_rows_def)
  have q: "kenya_sensitive \<in> set example_plotted_rows" by (simp add: example_plotted_rows_def)
  have c: "country kenya_mdr = country kenya_sensitive"
    by (simp add: kenya_mdr_def kenya_sensitive_def)
  have cp: "country kenya_mdr = ''Kenya''" by (simp add: kenya_mdr_def)
  have k: "country_coords (geocode_all example_geocode example_counts) ''Kenya''
             = Some \<lparr>lat = 1.5, lon = 38\<rparr>"
    by code_simp
  have jp: "dict_get jitter_map (dr_type kenya_mdr) 0.0 = 0.4"
    by (simp add: kenya_mdr_def dict_get_def jitter_map_def)
  have jq: "dict_get jitter_map (dr_type kenya_sensitive) 0.0 = 0.0"
    by (simp add: kenya_sensitive_def dict_get_def jitter_map_def)
  from same_country_shared_base[of example_lookup example_table example_geocode]
  have "\<forall>p \<in> set example_plotted_rows. \<forall>q \<in> set example_plotted_rows.
           country p = country q \<longrightarrow>
             point_lat p = point_lat q
             \<and> (\<exists>base.
                   base = (case country_coords
                                  (geocode_all example_geocode
                                     (counts_iso example_lookup (dropna example_table)))
                                  (country p) of
                             None \<Rightarrow> \<lparr>lat = 0.0, lon = 30.0\<rparr>
                           | Some v \<Rightarrow> v)
                   \<and> point_lat p = lat base \<and> point_lat q = lat base
                   \<and> point_lon p = fadd (lon base) (dict_get jitter_map (dr_type p) 0.0)
                   \<and> point_lon q = fadd (lon base) (dict_get jitter_map (dr_type q) 0.0)
                   \<and> \<bar>(point_lon p - point_lon q)
                        - (round64 (dict_get jitter_map (dr_type p) 0.0)
                           - round64 (dict_get jitter_map (dr_type q) 0.0))\<bar>
                       \<le> (\<bar>round64 (lon base) + round64 (dict_get jitter_map (dr_type p) 0.0)\<bar>
                           + \<bar>round64 (lon base)
                                + round64 (dict_get jitter_map (dr_type q) 0.0)\<bar>) / 2 ^ 53)
             \<and> count_list (snd (script example_lookup example_geocode example_table))
                   (Geocode (country p))
                 = (if country p = ''Georgia'' \<or> country p = ''Sudan'' then 0 else 1)"
    using example_plotted by blast
  note inst = this[rule_format, OF p q c]
  from inst have la: "point_lat kenya_mdr = point_lat kenya_sensitive"
    by (elim conjE)
  from inst have "count_list (snd (script example_lookup example_geocode example_table))
                   (Geocode (country kenya_mdr))
                 = (if country kenya_mdr = ''Georgia'' \<or> country kenya_mdr = ''Sudan''
                    then 0 else 1)"
    by (elim conjE)
  then have ct: "count_list (snd (script example_lookup example_geocode example_table))
               (Geocode ''Kenya'') = 1"
    unfolding cp by simp
  from inst obtain base where
    b: "base = (case country_coords
                      (geocode_all example_geocode
                         (counts_iso example_lookup (dropna example_table)))
                      (country kenya_mdr) of
                 None \<Rightarrow> \<lparr>lat = 0.0, lon = 30.0\<rparr>
               | Some v \<Rightarrow> v)"
    and lp: "point_lon kenya_mdr = fadd (lon base) (dict_get jitter_map (dr_type kenya_mdr) 0.0)"
    and lq: "point_lon kenya_sensitive
               = fadd (lon base) (dict_get jitter_map (dr_type kenya_sensitive) 0.0)"
    and e: "\<bar>(point_lon kenya_mdr - point_lon kenya_sensitive)
              - (round64 (dict_get jitter_map (dr_type kenya_mdr) 0.0)
                 - round64 (dict_get jitter_map (dr_type kenya_sensitive) 0.0))\<bar>
             \<le> (\<bar>round64 (lon base) + round64 (dict_get jitter_map (dr_type kenya_mdr) 0.0)\<bar>
                 + \<bar>round64 (lon base)
                      + round64 (dict_get jitter_map (dr_type kenya_sensitive) 0.0)\<bar>) / 2 ^ 53"
    by (elim conjE exE)
  from b have base: "lon base = 38"
    unfolding cp example_counts_def[symmetric] k by simp
  from lp have lo1: "point_lon kenya_mdr = fadd 38 0.4" unfolding base jp .
  from lq have lo2: "point_lon kenya_sensitive = fadd 38 0.0" unfolding base jq .
  from e have bd: "\<bar>(point_lon kenya_mdr - point_lon kenya_sensitive) - (round64 0.4 - round64 0.0)\<bar>
       \<le> (\<bar>round64 38 + round64 0.4\<bar> + \<bar>round64 38 + round64 0.0\<bar>) / 2 ^ 53"
    unfolding base jp jq .
  note lo = lo1 lo2
  from example_plotted p q c la k lo bd ct show ?thesis by (intro conjI)
qed

text \<open>
  The claim as written, with the longitudes differing exactly by the difference of the
  offsets, fails on the two Kenya rows of the example: Python computes
  \<open>38.0 + 0.4 = 38.4\<close>, the binary64 number \<open>5404319552844595 / 2 ^ 47\<close>, and
  \<open>38.4 - 38.0\<close> is 0.3999999999999986, not 0.4, whether the offsets are read as the
  decimals written in the script or as the binary64 numbers they stand for, and
  whether the differences are exact or binary64 subtractions.
\<close>

theorem lon_difference_not_exact:
  "plotted_rows example_lookup example_geocode example_table = Inr example_plotted_rows
   \<and> kenya_mdr \<in> set example_plotted_rows
   \<and> kenya_sensitive \<in> set example_plotted_rows
   \<and> country kenya_mdr = country kenya_sensitive
   \<and> point_lon kenya_mdr - point_lon kenya_sensitive = 56294995342131 / 2 ^ 47
   \<and> dict_get jitter_map (dr_type kenya_mdr) 0.0
       - dict_get jitter_map (dr_type kenya_sensitive) 0.0 = 0.4
   \<and> point_lon kenya_mdr - point_lon kenya_sensitive
       \<noteq> dict_get jitter_map (dr_type kenya_mdr) 0.0
         - dict_get jitter_map (dr_type kenya_sensitive) 0.0
   \<and> point_lon kenya_mdr - point_lon kenya_sensitive
       \<noteq> round64 (dict_get jitter_map (dr_type kenya_mdr) 0.0)
         - round64 (dict_get jitter_map (dr_type kenya_sensitive) 0.0)
   \<and> round64 (point_lon kenya_mdr - point_lon kenya_sensitive)
       \<noteq> round64 (round64 (dict_get jitter_map (dr_type kenya_mdr) 0.0)
                  - round64 (dict_get jitter_map (dr_type kenya_sensitive) 0.0))"
proof -
  have p: "kenya_mdr \<in> set example_plotted_rows" by (simp add: example_plotted_rows_def)
  have q: "kenya_sensitive \<in> set example_plotted_rows" by (simp add: example_plotted_rows_def)
  have c: "country kenya_mdr = country kenya_sensitive"
    by (simp add: kenya_mdr_def kenya_sensitive_def)
  have d: "point_lon kenya_mdr - point_lon kenya_sensitive = 56294995342131 / 2 ^ 47"
    by (simp add: kenya_mdr_def kenya_sensitive_def)
  have j: "dict_get jitter_map (dr_type kenya_mdr) 0.0
       - dict_get jitter_map (dr_type kenya_sensitive) 0.0 = 0.4"
    by (simp add: kenya_mdr_def kenya_sensitive_def dict_get_def jitter_map_def)
  have n1: "point_lon kenya_mdr - point_lon kenya_sensitive
       \<noteq> dict_get jitter_map (dr_type kenya_mdr) 0.0
         - dict_get jitter_map (dr_type kenya_sensitive) 0.0"
    unfolding d j by simp
  have n2: "point_lon kenya_mdr - point_lon kenya_sensitive
       \<noteq> round64 (dict_get jitter_map (dr_type kenya_mdr) 0.0)
         - round64 (dict_get jitter_map (dr_type kenya_sensitive) 0.0)"
    by code_simp
  have n3: "round64 (point_lon kenya_mdr - point_lon kenya_sensitive)
       \<noteq> round64 (round64 (dict_get jitter_map (dr_type kenya_mdr) 0.0)
                  - round64 (dict_get jitter_map (dr_type kenya_sensitive) 0.0))"
    by code_simp
  from example_plotted p q c d j n1 n2 n3 show ?thesis by (intro conjI)
qed

end
